theory Spec2Isabelle
  imports Complex_Main "HOL-Library.Product_Lexorder"
begin

section \<open>TaxAndFee cell: data model\<close>

text \<open>
  JavaScript numbers are idealised as rationals: every arithmetic step of the source is
  taken exactly, and \<open>NaN\<close> and the two zeros do not occur. The one place where the source
  itself stores a non-finite number, the upper bound of an open fee tier, is kept (type
  \<open>upper\<close> below). Strings are lists of 8-bit characters.
\<close>

datatype error =
    Error string       \<comment> \<open>\<open>throw new Error(msg)\<close>\<close>
  | StoreError         \<comment> \<open>a rejected \<open>redis\<close> or \<open>execute_sql\<close> promise\<close>
  | SyntaxError        \<comment> \<open>\<open>JSON.parse\<close> on text that is not JSON\<close>

record TaxCalculationInput =
  amount :: rat
  taxRate :: rat
  region :: "string option"      \<comment> \<open>\<open>region?: string\<close>\<close>
  itemType :: "string option"    \<comment> \<open>\<open>itemType?: string\<close>\<close>
  tenantId :: string

record breakdown =
  baseTax :: rat
  regionTax :: rat
  processingFee :: rat

datatype config_source = database | fallback_hardcoded

record TaxCalculationResult =
  subtotal :: rat
  tax :: rat
  fees :: rat
  total :: rat
  breakdown :: breakdown
  configurationSource :: config_source

record region_data =
  taxMultiplier :: rat
  description :: string

record region_rates = region_data +
  source :: string

text \<open>
  An upper bound of a fee tier as the source holds it: a number, \<open>Infinity\<close> (a row whose
  \<open>max_amount\<close> is NULL), or \<open>null\<close> (what \<open>JSON.stringify\<close> writes for \<open>Infinity\<close>, read
  back by \<open>JSON.parse\<close>).
\<close>

datatype upper = Finite rat | Infinity | Null

record fee_tier =
  minAmount :: rat
  maxAmount :: upper
  feeAmount :: rat
  feePercentage :: "rat option"

subsection \<open>The relational store\<close>

text \<open>
  Numeric columns arrive as decimal text (the source applies \<open>parseFloat\<close> to each), so
  of a nullable column only NULL is falsy; the rows below hold the parsed numbers.
\<close>

record region_row =
  rm_tenant_id :: string
  rm_region_code :: string
  rm_tax_multiplier :: rat
  rm_description :: "string option"
  rm_is_default :: bool
  rm_is_active :: bool

record tier_row =
  ft_tenant_id :: string
  ft_tier_order :: int
  ft_min_amount :: rat
  ft_max_amount :: "rat option"
  ft_fee_amount :: rat
  ft_fee_percentage :: "rat option"
  ft_is_active :: bool

record item_row =
  ia_tenant_id :: string
  ia_item_type_code :: string
  ia_tax_adjustment_multiplier :: rat
  ia_is_default :: bool
  ia_is_active :: bool

subsection \<open>The cache and the world\<close>

text \<open>
  A cached text under one of the two JSON key families is either the JSON of a value of
  the shape this module writes there, or text that \<open>JSON.parse\<close> rejects. Each entry
  carries the time at which it expires.
\<close>

datatype 'a cached_json = Parsed 'a | Corrupt

datatype store_op =
    RedisGet string
  | RedisSetex string nat
  | ExecuteSql string "string list"

record world =
  tax_region_multipliers :: "region_row list"
  fee_structure_tiers :: "tier_row list"
  item_type_tax_adjustments :: "item_row list"
  region_cache :: "string \<rightharpoonup> (region_data cached_json \<times> nat)"
  tiers_cache :: "string \<rightharpoonup> (fee_tier list cached_json \<times> nat)"
  adjust_cache :: "string \<rightharpoonup> (rat \<times> nat)"
  now :: nat                       \<comment> \<open>clock, in seconds\<close>
  faults :: "nat \<Rightarrow> bool"          \<comment> \<open>whether the n-th store operation is rejected\<close>
  oplog :: "store_op list"         \<comment> \<open>store operations issued so far\<close>

type_synonym 'a io = "world \<Rightarrow> (error + 'a) \<times> world"

definition return_io :: "'a \<Rightarrow> 'a io" where
  "return_io x w = (Inr x, w)"

definition throw_io :: "error \<Rightarrow> 'a io" where
  "throw_io e w = (Inl e, w)"

definition bind_io :: "'a io \<Rightarrow> ('a \<Rightarrow> 'b io) \<Rightarrow> 'b io" where
  "bind_io m f w = (case m w of (Inl e, w') \<Rightarrow> (Inl e, w') | (Inr x, w') \<Rightarrow> f x w')"

definition catch_io :: "'a io \<Rightarrow> (error \<Rightarrow> 'a io) \<Rightarrow> 'a io" where
  "catch_io m h w = (case m w of (Inl e, w') \<Rightarrow> h e w' | (Inr x, w') \<Rightarrow> (Inr x, w'))"

text \<open>One store operation: it is logged, and rejected when the fault oracle says so.\<close>

definition store_call :: "store_op \<Rightarrow> (world \<Rightarrow> 'a) \<Rightarrow> 'a io" where
  "store_call op rd w =
     (let w' = w\<lparr>oplog := oplog w @ [op]\<rparr>
      in if faults w (length (oplog w)) then (Inl StoreError, w') else (Inr (rd w), w'))"

definition live :: "('k \<rightharpoonup> ('v \<times> nat)) \<Rightarrow> 'k \<Rightarrow> nat \<Rightarrow> 'v option" where
  "live m k t = (case m k of None \<Rightarrow> None | Some (v, expires) \<Rightarrow> if t < expires then Some v else None)"

definition json_parse :: "'a cached_json \<Rightarrow> 'a io" where
  "json_parse c = (case c of Parsed x \<Rightarrow> return_io x | Corrupt \<Rightarrow> throw_io SyntaxError)"

text \<open>Case mapping of the ASCII letters; other characters are left as they are.\<close>

definition toUpperChar :: "char \<Rightarrow> char" where
  "toUpperChar c = (let n = (of_char c :: nat) in if 97 \<le> n \<and> n \<le> 122 then char_of (n - 32) else c)"

definition toLowerChar :: "char \<Rightarrow> char" where
  "toLowerChar c = (let n = (of_char c :: nat) in if 65 \<le> n \<and> n \<le> 90 then char_of (n + 32) else c)"

definition toUpperCase :: "string \<Rightarrow> string" where
  "toUpperCase s = map toUpperChar s"

definition toLowerCase :: "string \<Rightarrow> string" where
  "toLowerCase s = map toLowerChar s"

text \<open>
  \<open>parseFloat(x.toFixed(2))\<close> on an exactly given value: round to hundredths, ties away
  from zero. The source applies it to a binary double, which agrees with this wherever the
  doubles involved are exact (as in the evaluations below) and may differ elsewhere: the
  double nearest to 0.075 lies below it and is rounded to 0.07. Statements that must hold
  for every number therefore use the arithmetic-independent model of \<open>calculate_with\<close>.
\<close>

definition toFixed2 :: "rat \<Rightarrow> rat" where
  "toFixed2 x =
     (if x < 0 then - (of_int \<lfloor>(- x) * 100 + 1 / 2\<rfloor> / 100)
      else of_int \<lfloor>x * 100 + 1 / 2\<rfloor> / 100)"

subsection \<open>Cache keys\<close>

definition regionMultipliers :: "string \<Rightarrow> string" where
  "regionMultipliers tid = ''tax_regions:'' @ tid"

definition feeTiers :: "string \<Rightarrow> string" where
  "feeTiers tid = ''fee_tiers:'' @ tid"

definition itemAdjustments :: "string \<Rightarrow> string" where
  "itemAdjustments tid = ''item_adjustments:'' @ tid"

section \<open>TaxAndFee cell: operations\<close>

subsection \<open>getRegionRates\<close>

definition or_else :: "string option \<Rightarrow> string \<Rightarrow> string" where
  \<comment> \<open>\<open>description || fallback\<close>: NULL and the empty string are falsy\<close>
  "or_else d fallback = (case d of None \<Rightarrow> fallback | Some s \<Rightarrow> if s = [] then fallback else s)"

definition region_exact_rows :: "string \<Rightarrow> string \<Rightarrow> world \<Rightarrow> region_row list" where
  "region_exact_rows tid code w =
     filter (\<lambda>r. rm_tenant_id r = tid \<and> rm_region_code r = code \<and> rm_is_active r)
       (tax_region_multipliers w)"

definition region_default_rows :: "string \<Rightarrow> world \<Rightarrow> region_row list" where
  "region_default_rows tid w =
     filter (\<lambda>r. rm_tenant_id r = tid \<and> rm_is_default r \<and> rm_is_active r)
       (tax_region_multipliers w)"

definition region_setex :: "string \<Rightarrow> nat \<Rightarrow> region_data \<Rightarrow> unit io" where
  "region_setex key ttl d =
     bind_io (store_call (RedisSetex key ttl) (\<lambda>_. ()))
       (\<lambda>_ w. (Inr (), w\<lparr>region_cache := (region_cache w)(key \<mapsto> (Parsed d, now w + ttl))\<rparr>))"

definition with_source :: "region_data \<Rightarrow> string \<Rightarrow> region_rates" where
  "with_source d s = \<lparr>taxMultiplier = taxMultiplier d, description = description d, source = s\<rparr>"

definition getRegionRates_try :: "string \<Rightarrow> string \<Rightarrow> region_rates io" where
  "getRegionRates_try reg tid =
     (let cacheKey = regionMultipliers tid @ '':'' @ reg in
      bind_io (store_call (RedisGet cacheKey) (\<lambda>w. live (region_cache w) cacheKey (now w)))
        (\<lambda>cached. case cached of
           Some c \<Rightarrow>
             bind_io (json_parse c) (\<lambda>cachedData. return_io (with_source cachedData ''database_cached''))
         | None \<Rightarrow>
             bind_io (store_call (ExecuteSql ''tax_region_multipliers'' [tid, toUpperCase reg])
                        (region_exact_rows tid (toUpperCase reg)))
               (\<lambda>rows. case rows of
                  r # _ \<Rightarrow>
                    (let data = \<lparr>taxMultiplier = rm_tax_multiplier r,
                                 description = or_else (rm_description r)
                                   (''Regional tax adjustment for '' @ reg)\<rparr>
                     in bind_io (region_setex cacheKey 3600 data)
                          (\<lambda>_. return_io (with_source data ''database'')))
                | [] \<Rightarrow>
                    bind_io (store_call (ExecuteSql ''tax_region_multipliers:default'' [tid])
                               (region_default_rows tid))
                      (\<lambda>defaultRows. case defaultRows of
                         r # _ \<Rightarrow>
                           return_io \<lparr>taxMultiplier = rm_tax_multiplier r,
                                      description = or_else (rm_description r)
                                        ''Default tax rate for unspecified regions'',
                                      source = ''database_default''\<rparr>
                       | [] \<Rightarrow>
                           return_io \<lparr>taxMultiplier = 1,
                                      description = ''Emergency fallback rate - no database configuration found'',
                                      source = ''emergency_fallback''\<rparr>))))"

definition getRegionRates :: "string \<Rightarrow> string \<Rightarrow> region_rates io" where
  "getRegionRates reg tid =
     (if tid = [] then throw_io (Error ''Tenant ID is required for region rate lookup'')
      else catch_io (getRegionRates_try reg tid)
             (\<lambda>_. return_io \<lparr>taxMultiplier = 1,
                              description = ''Emergency fallback rate due to database error'',
                              source = ''error_fallback''\<rparr>))"

definition getRegionTaxMultiplier :: "string \<Rightarrow> string \<Rightarrow> rat io" where
  "getRegionTaxMultiplier reg tid =
     catch_io (bind_io (getRegionRates reg tid) (\<lambda>regionData. return_io (taxMultiplier regionData)))
       (\<lambda>_. return_io 1)"

subsection \<open>Processing fee\<close>

definition calculateProcessingFeeHardcodedFallback :: "rat \<Rightarrow> rat" where
  "calculateProcessingFeeHardcodedFallback a =
     (if a < 50 then 5 / 4 else if a < 100 then 2 else if a < 500 then 5 / 2 else 5)"

definition tier_of_row :: "tier_row \<Rightarrow> fee_tier" where
  "tier_of_row row =
     \<lparr>minAmount = ft_min_amount row,
      maxAmount = (case ft_max_amount row of Some m \<Rightarrow> Finite m | None \<Rightarrow> Infinity),
      feeAmount = ft_fee_amount row,
      feePercentage = ft_fee_percentage row\<rparr>"

definition json_roundtrip_tier :: "fee_tier \<Rightarrow> fee_tier" where
  \<comment> \<open>\<open>JSON.parse(JSON.stringify(tier))\<close>: \<open>Infinity\<close> is written as \<open>null\<close>\<close>
  "json_roundtrip_tier t = t\<lparr>maxAmount := (case maxAmount t of Infinity \<Rightarrow> Null | m \<Rightarrow> m)\<rparr>"

fun below :: "rat \<Rightarrow> upper \<Rightarrow> bool" where
  \<comment> \<open>\<open>amount < tier.maxAmount\<close>; \<open>null\<close> is coerced to 0\<close>
  "below a (Finite m) = (a < m)"
| "below a Infinity = True"
| "below a Null = (a < 0)"

definition in_tier :: "rat \<Rightarrow> fee_tier \<Rightarrow> bool" where
  "in_tier a t = (minAmount t \<le> a \<and> below a (maxAmount t))"

definition tier_fee :: "rat \<Rightarrow> fee_tier \<Rightarrow> rat" where
  "tier_fee a t =
     (case feePercentage t of
        Some p \<Rightarrow> if p \<noteq> 0 \<and> p > 0 then a * p else feeAmount t
      | None \<Rightarrow> feeAmount t)"

definition fee_from_tiers :: "rat \<Rightarrow> fee_tier list \<Rightarrow> rat" where
  \<comment> \<open>the part of \<open>calculateProcessingFeeFromDatabase\<close> after the tier list is known\<close>
  "fee_from_tiers a ts =
     (case find (in_tier a) ts of
        Some t \<Rightarrow> tier_fee a t
      | None \<Rightarrow> (case ts of [] \<Rightarrow> 5 | _ \<Rightarrow> feeAmount (last ts)))"

definition fee_tier_rows :: "string \<Rightarrow> world \<Rightarrow> tier_row list" where
  "fee_tier_rows tid w =
     sort_key ft_tier_order
       (filter (\<lambda>r. ft_tenant_id r = tid \<and> ft_is_active r) (fee_structure_tiers w))"

definition tiers_setex :: "string \<Rightarrow> nat \<Rightarrow> fee_tier list \<Rightarrow> unit io" where
  "tiers_setex key ttl ts =
     bind_io (store_call (RedisSetex key ttl) (\<lambda>_. ()))
       (\<lambda>_ w. (Inr (), w\<lparr>tiers_cache :=
                  (tiers_cache w)(key \<mapsto> (Parsed (map json_roundtrip_tier ts), now w + ttl))\<rparr>))"

definition calculateProcessingFeeFromDatabase_try :: "rat \<Rightarrow> string \<Rightarrow> rat io" where
  "calculateProcessingFeeFromDatabase_try a tid =
     (let cacheKey = feeTiers tid in
      bind_io (store_call (RedisGet cacheKey) (\<lambda>w. live (tiers_cache w) cacheKey (now w)))
        (\<lambda>cached.
           bind_io
             (case cached of
                Some c \<Rightarrow> json_parse c
              | None \<Rightarrow>
                  bind_io (store_call (ExecuteSql ''fee_structure_tiers'' [tid]) (fee_tier_rows tid))
                    (\<lambda>rows.
                       if rows = [] then throw_io (Error ''No fee structure configuration found'')
                       else (let ts = map tier_of_row rows
                             in bind_io (tiers_setex cacheKey 3600 ts) (\<lambda>_. return_io ts))))
             (\<lambda>ts. return_io (fee_from_tiers a ts))))"

definition calculateProcessingFeeFromDatabase :: "rat \<Rightarrow> string \<Rightarrow> rat io" where
  "calculateProcessingFeeFromDatabase a tid =
     catch_io (calculateProcessingFeeFromDatabase_try a tid)
       (\<lambda>_. return_io (calculateProcessingFeeHardcodedFallback a))"

subsection \<open>Item-type adjustment\<close>

definition getItemTypeAdjustmentHardcodedFallback :: "string \<Rightarrow> rat" where
  \<comment> \<open>\<open>adjustments[itemType] || 1.0\<close>: the entry 0.0 of \<open>medical\<close> is falsy. Only the
      literal's own keys are modelled; a name inherited from \<open>Object.prototype\<close>
      (\<open>constructor\<close>, \<open>toString\<close>, ...) yields a non-number in the source.\<close>
  "getItemTypeAdjustmentHardcodedFallback it =
     (let adjustments = [''food'' \<mapsto> 1 / 2, ''medical'' \<mapsto> 0, ''luxury'' \<mapsto> 6 / 5,
                         ''digital'' \<mapsto> 4 / 5, ''general'' \<mapsto> (1::rat)]
      in case adjustments it of
           Some v \<Rightarrow> if v = 0 then 1 else v
         | None \<Rightarrow> 1)"

definition item_exact_rows :: "string \<Rightarrow> string \<Rightarrow> world \<Rightarrow> item_row list" where
  "item_exact_rows tid code w =
     filter (\<lambda>r. ia_tenant_id r = tid \<and> ia_item_type_code r = code \<and> ia_is_active r)
       (item_type_tax_adjustments w)"

definition item_default_rows :: "string \<Rightarrow> world \<Rightarrow> item_row list" where
  "item_default_rows tid w =
     filter (\<lambda>r. ia_tenant_id r = tid \<and> ia_is_default r \<and> ia_is_active r)
       (item_type_tax_adjustments w)"

definition adjust_setex :: "string \<Rightarrow> nat \<Rightarrow> rat \<Rightarrow> unit io" where
  "adjust_setex key ttl v =
     bind_io (store_call (RedisSetex key ttl) (\<lambda>_. ()))
       (\<lambda>_ w. (Inr (), w\<lparr>adjust_cache := (adjust_cache w)(key \<mapsto> (v, now w + ttl))\<rparr>))"

definition getItemTypeAdjustmentFromDatabase_try :: "string \<Rightarrow> string \<Rightarrow> rat io" where
  "getItemTypeAdjustmentFromDatabase_try it tid =
     (let cacheKey = itemAdjustments tid @ '':'' @ it in
      bind_io (store_call (RedisGet cacheKey) (\<lambda>w. live (adjust_cache w) cacheKey (now w)))
        (\<lambda>cached. case cached of
           Some v \<Rightarrow> return_io v
         | None \<Rightarrow>
             bind_io (store_call (ExecuteSql ''item_type_tax_adjustments'' [tid, toLowerCase it])
                        (item_exact_rows tid (toLowerCase it)))
               (\<lambda>rows. case rows of
                  r # _ \<Rightarrow>
                    (let adjustment = ia_tax_adjustment_multiplier r
                     in bind_io (adjust_setex cacheKey 3600 adjustment) (\<lambda>_. return_io adjustment))
                | [] \<Rightarrow>
                    bind_io (store_call (ExecuteSql ''item_type_tax_adjustments:default'' [tid])
                               (item_default_rows tid))
                      (\<lambda>defaultRows. case defaultRows of
                         r # _ \<Rightarrow> return_io (ia_tax_adjustment_multiplier r)
                       | [] \<Rightarrow> return_io 1))))"

definition getItemTypeAdjustmentFromDatabase :: "string \<Rightarrow> string \<Rightarrow> rat io" where
  "getItemTypeAdjustmentFromDatabase it tid =
     catch_io (getItemTypeAdjustmentFromDatabase_try it tid)
       (\<lambda>_. return_io (getItemTypeAdjustmentHardcodedFallback it))"

subsection \<open>calculate\<close>

definition calculateWithEmergencyFallback :: "TaxCalculationInput \<Rightarrow> TaxCalculationResult" where
  "calculateWithEmergencyFallback input =
     (let baseTax = amount input * taxRate input;
          processingFee = calculateProcessingFeeHardcodedFallback (amount input);
          tax = toFixed2 baseTax;
          fees = toFixed2 processingFee;
          total = toFixed2 (amount input + tax + fees)
      in \<lparr>subtotal = amount input, tax = tax, fees = fees, total = total,
          breakdown = \<lparr>baseTax = tax, regionTax = 0, processingFee = fees\<rparr>,
          configurationSource = fallback_hardcoded\<rparr>)"

definition assemble :: "rat \<Rightarrow> rat \<Rightarrow> rat \<Rightarrow> rat \<Rightarrow> rat \<Rightarrow> TaxCalculationResult" where
  \<comment> \<open>the arithmetic of the \<open>try\<close> block of \<open>calculate\<close>, once the three lookups have returned\<close>
  "assemble amt rate regionMultiplier fee itemAdjustment =
     (let baseTax = amt * rate;
          regionTax = baseTax * (regionMultiplier - 1);
          adjustedTax = (baseTax + regionTax) * itemAdjustment;
          tax = toFixed2 adjustedTax;
          fees = toFixed2 fee;
          total = toFixed2 (amt + tax + fees)
      in \<lparr>subtotal = amt, tax = tax, fees = fees, total = total,
          breakdown = \<lparr>baseTax = toFixed2 baseTax, regionTax = toFixed2 regionTax,
                       processingFee = toFixed2 fee\<rparr>,
          configurationSource = database\<rparr>)"

definition calculate_try :: "TaxCalculationInput \<Rightarrow> TaxCalculationResult io" where
  "calculate_try input =
     (let reg = (case region input of None \<Rightarrow> ''default'' | Some r \<Rightarrow> r);
          it = (case itemType input of None \<Rightarrow> ''general'' | Some t \<Rightarrow> t)
      in bind_io (getRegionTaxMultiplier reg (tenantId input))
           (\<lambda>regionMultiplier.
              bind_io (calculateProcessingFeeFromDatabase (amount input) (tenantId input))
                (\<lambda>fee.
                   bind_io (getItemTypeAdjustmentFromDatabase it (tenantId input))
                     (\<lambda>itemAdjustment.
                        return_io (assemble (amount input) (taxRate input)
                                     regionMultiplier fee itemAdjustment)))))"

definition calculate :: "TaxCalculationInput \<Rightarrow> TaxCalculationResult io" where
  "calculate input =
     (if amount input < 0 then throw_io (Error ''Amount must be non-negative'')
      else if taxRate input < 0 \<or> taxRate input > 1
        then throw_io (Error ''Tax rate must be between 0 and 1'')
      else if tenantId input = []
        then throw_io (Error ''Tenant ID is required for multi-tenant tax calculations'')
      else catch_io (calculate_try input)
             (\<lambda>_. return_io (calculateWithEmergencyFallback input)))"

section \<open>The arithmetic of calculate over any number type\<close>

text \<open>
  The numbers of the source are IEEE doubles, with \<open>NaN\<close>. Here the operations that
  \<open>calculate\<close> applies to them are parameters, and so are the outcomes of its three
  awaited lookups: what is proved of \<open>calculate_with\<close> holds for the double arithmetic of
  the source as for any other, and for whatever the lookups yield. The exact rationals
  used so far are the instance \<open>rat_arith\<close>.
\<close>

record 'n arith =
  js_plus :: "'n \<Rightarrow> 'n \<Rightarrow> 'n"        \<comment> \<open>\<open>a + b\<close>\<close>
  js_minus :: "'n \<Rightarrow> 'n \<Rightarrow> 'n"       \<comment> \<open>\<open>a - b\<close>\<close>
  js_times :: "'n \<Rightarrow> 'n \<Rightarrow> 'n"       \<comment> \<open>\<open>a * b\<close>\<close>
  js_less :: "'n \<Rightarrow> 'n \<Rightarrow> bool"      \<comment> \<open>\<open>a < b\<close>; \<open>a > b\<close> is \<open>b < a\<close>\<close>
  js_toFixed2 :: "'n \<Rightarrow> 'n"          \<comment> \<open>\<open>parseFloat(a.toFixed(2))\<close>\<close>
  js_literal :: "rat \<Rightarrow> 'n"           \<comment> \<open>a numeric literal of the source text\<close>

record 'n calc_breakdown =
  c_baseTax :: 'n
  c_regionTax :: 'n
  c_processingFee :: 'n

record 'n calc_result =
  c_subtotal :: 'n
  c_tax :: 'n
  c_fees :: 'n
  c_total :: 'n
  c_breakdown :: "'n calc_breakdown"
  c_configurationSource :: config_source

text \<open>What each of the three awaited lookups of \<open>calculate\<close> came back with.\<close>

record 'n lookup_outcomes =
  region_outcome :: "error + 'n"     \<comment> \<open>\<open>getRegionTaxMultiplier\<close>\<close>
  fee_outcome :: "error + 'n"        \<comment> \<open>\<open>calculateProcessingFeeFromDatabase\<close>\<close>
  item_outcome :: "error + 'n"       \<comment> \<open>\<open>getItemTypeAdjustmentFromDatabase\<close>\<close>

definition calculateProcessingFeeHardcodedFallback_with :: "'n arith \<Rightarrow> 'n \<Rightarrow> 'n" where
  "calculateProcessingFeeHardcodedFallback_with A a =
     (if js_less A a (js_literal A 50) then js_literal A (5 / 4)
      else if js_less A a (js_literal A 100) then js_literal A 2
      else if js_less A a (js_literal A 500) then js_literal A (5 / 2)
      else js_literal A 5)"

definition calculateWithEmergencyFallback_with :: "'n arith \<Rightarrow> 'n \<Rightarrow> 'n \<Rightarrow> 'n calc_result" where
  "calculateWithEmergencyFallback_with A amt rate =
     (let baseTax = js_times A amt rate;
          processingFee = calculateProcessingFeeHardcodedFallback_with A amt;
          tax = js_toFixed2 A baseTax;
          fees = js_toFixed2 A processingFee;
          total = js_toFixed2 A (js_plus A (js_plus A amt tax) fees)
      in \<lparr>c_subtotal = amt, c_tax = tax, c_fees = fees, c_total = total,
          c_breakdown = \<lparr>c_baseTax = tax, c_regionTax = js_literal A 0, c_processingFee = fees\<rparr>,
          c_configurationSource = fallback_hardcoded\<rparr>)"

definition assemble_with :: "'n arith \<Rightarrow> 'n \<Rightarrow> 'n \<Rightarrow> 'n \<Rightarrow> 'n \<Rightarrow> 'n \<Rightarrow> 'n calc_result" where
  "assemble_with A amt rate regionMultiplier fee itemAdjustment =
     (let baseTax = js_times A amt rate;
          regionTax = js_times A baseTax (js_minus A regionMultiplier (js_literal A 1));
          adjustedTax = js_times A (js_plus A baseTax regionTax) itemAdjustment;
          tax = js_toFixed2 A adjustedTax;
          fees = js_toFixed2 A fee;
          total = js_toFixed2 A (js_plus A (js_plus A amt tax) fees)
      in \<lparr>c_subtotal = amt, c_tax = tax, c_fees = fees, c_total = total,
          c_breakdown = \<lparr>c_baseTax = js_toFixed2 A baseTax,
                         c_regionTax = js_toFixed2 A regionTax,
                         c_processingFee = js_toFixed2 A fee\<rparr>,
          c_configurationSource = database\<rparr>)"

definition calculate_with ::
  "'n arith \<Rightarrow> 'n lookup_outcomes \<Rightarrow> 'n \<Rightarrow> 'n \<Rightarrow> string \<Rightarrow> error + 'n calc_result" where
  \<comment> \<open>\<open>calculate\<close> on amount, rate and tenant id, the lookups having these outcomes\<close>
  "calculate_with A L amt rate tid =
     (if js_less A amt (js_literal A 0) then Inl (Error ''Amount must be non-negative'')
      else if js_less A rate (js_literal A 0) \<or> js_less A (js_literal A 1) rate
        then Inl (Error ''Tax rate must be between 0 and 1'')
      else if tid = []
        then Inl (Error ''Tenant ID is required for multi-tenant tax calculations'')
      else case region_outcome L of
             Inl _ \<Rightarrow> Inr (calculateWithEmergencyFallback_with A amt rate)
           | Inr regionMultiplier \<Rightarrow>
               (case fee_outcome L of
                  Inl _ \<Rightarrow> Inr (calculateWithEmergencyFallback_with A amt rate)
                | Inr fee \<Rightarrow>
                    (case item_outcome L of
                       Inl _ \<Rightarrow> Inr (calculateWithEmergencyFallback_with A amt rate)
                     | Inr itemAdjustment \<Rightarrow>
                         Inr (assemble_with A amt rate regionMultiplier fee itemAdjustment))))"

subsection \<open>The rational instance\<close>

definition rat_arith :: "rat arith" where
  "rat_arith =
     \<lparr>js_plus = (+), js_minus = (-), js_times = (*), js_less = (<),
      js_toFixed2 = toFixed2, js_literal = (\<lambda>q. q)\<rparr>"

definition generic_result :: "TaxCalculationResult \<Rightarrow> rat calc_result" where
  "generic_result r =
     \<lparr>c_subtotal = subtotal r, c_tax = tax r, c_fees = fees r, c_total = total r,
      c_breakdown = \<lparr>c_baseTax = baseTax (breakdown r), c_regionTax = regionTax (breakdown r),
                     c_processingFee = processingFee (breakdown r)\<rparr>,
      c_configurationSource = configurationSource r\<rparr>"

text \<open>The outcomes of the three lookups as \<open>calculate\<close> issues them from a world.\<close>

definition outcomes_in :: "TaxCalculationInput \<Rightarrow> world \<Rightarrow> rat lookup_outcomes" where
  "outcomes_in input w =
     (let reg = (case region input of None \<Rightarrow> ''default'' | Some r \<Rightarrow> r);
          it = (case itemType input of None \<Rightarrow> ''general'' | Some t \<Rightarrow> t);
          r1 = getRegionTaxMultiplier reg (tenantId input) w;
          r2 = calculateProcessingFeeFromDatabase (amount input) (tenantId input) (snd r1);
          r3 = getItemTypeAdjustmentFromDatabase it (tenantId input) (snd r2)
      in \<lparr>region_outcome = fst r1, fee_outcome = fst r2, item_outcome = fst r3\<rparr>)"

section \<open>Cell API route: the POST handler\<close>

text \<open>
  A thrown value is an \<open>Error\<close> object with its message, or anything else. The cell bus
  is held by the handler as a parameter: \<open>call cellId action payload\<close> either returns a
  result or throws. The request body is given as the outcome of \<open>request.json()\<close>. The
  channel header only reaches the console log and is left out. A returned result is taken
  to be serialisable (\<open>NextResponse.json\<close> throws on one that is not, which the handler's
  \<open>catch\<close> answers with 500).
\<close>

datatype thrown = ErrorObject string | OtherThrown

datatype 'r body =
    ErrorBody string "string option"    \<comment> \<open>\<open>{error, message?}\<close>\<close>
  | ResultBody 'r

record 'r response =
  status :: nat
  body :: "'r body"

type_synonym ('p, 'r) bus = "string \<Rightarrow> string \<Rightarrow> 'p \<Rightarrow> thrown + 'r"

definition thrown_message :: "thrown \<Rightarrow> string" where
  "thrown_message e = (case e of ErrorObject m \<Rightarrow> m | OtherThrown \<Rightarrow> ''Unknown error'')"

definition POST :: "('p, 'r) bus \<Rightarrow> string list option \<Rightarrow> thrown + 'p \<Rightarrow> 'r response" where
  "POST call cellPath request_json =
     (let invalid = \<lparr>status = 400,
            body = ErrorBody ''Invalid cell path. Expected: /api/cells/sector/name/actions/action'' None\<rparr>;
          failed = (\<lambda>e. \<lparr>status = 500,
            body = ErrorBody ''Cell action failed'' (Some (thrown_message e))\<rparr>)
      in case cellPath of
           None \<Rightarrow> invalid
         | Some cp \<Rightarrow>
             if length cp < 4 \<or> cp ! 2 \<noteq> ''actions'' then invalid
             else (let sector = cp ! 0; name = cp ! 1; action = cp ! 3;
                       cellId = sector @ ''/'' @ name
                   in case request_json of
                        Inl e \<Rightarrow> failed e
                      | Inr payload \<Rightarrow>
                          (case call cellId action payload of
                             Inl e \<Rightarrow> failed e
                           | Inr result \<Rightarrow> \<lparr>status = 200, body = ResultBody result\<rparr>)))"

text \<open>
  Modelled from the spec: the cell bus (\<open>cell-sdk/loader/cell-bus\<close>) is not among the
  sources. The spec's Call Router fails with \<open>NotFound\<close> when no handler is registered for
  the destination, and with \<open>InvocationError\<close> wrapping the handler's own failure.
\<close>

definition cellBus_call :: "(string \<rightharpoonup> (string \<Rightarrow> 'p \<Rightarrow> thrown + 'r)) \<Rightarrow> ('p, 'r) bus" where
  "cellBus_call registry cellId action payload =
     (case registry cellId of
        None \<Rightarrow> Inl (ErrorObject (''NotFound: '' @ cellId))
      | Some handler \<Rightarrow>
          (case handler action payload of
             Inl e \<Rightarrow> Inl (ErrorObject (''InvocationError: '' @ thrown_message e))
           | Inr r \<Rightarrow> Inr r))"

section \<open>B2BAccessControl cell\<close>

subsection \<open>Tables\<close>

record access_rule =
  car_id :: string
  car_tenant_id :: string
  car_category_id :: string
  car_rule_scope :: string
  car_user_id :: "string option"
  car_group_id :: "string option"
  car_access_type :: string
  car_priority :: int
  car_created_at :: nat

record user_group =
  bg_id :: string
  bg_group_name :: string

record membership =
  gm_id :: string
  gm_tenant_id :: string
  gm_user_id :: string
  gm_group_id :: string
  gm_membership_status :: string
  gm_membership_type :: string
  gm_effective_date :: string
  gm_expiry_date :: "string option"
  gm_auto_renewal :: bool
  gm_renewal_period_months :: nat
  gm_discount_percentage :: rat
  gm_credit_limit_override :: "rat option"
  gm_sales_rep_id :: "string option"
  gm_territory :: "string option"
  gm_business_registration :: "string option"
  gm_tax_identification :: "string option"
  gm_created_by :: string
  gm_updated_at :: nat

record b2b_db =
  b2b_category_access_rules :: "access_rule list"
  b2b_user_groups :: "user_group list"
  b2b_group_memberships :: "membership list"
  db_available :: bool              \<comment> \<open>\<open>execute_sql\<close> rejects when this is false\<close>
  current_timestamp :: nat

subsection \<open>checkUserCategoryAccess\<close>

datatype restriction_level = level_none | level_partial | level_full

record CategoryAccessResult =
  hasAccess :: bool
  restrictionLevel :: restriction_level
  restrictionReason :: "string option"
  allowedActions :: "string list"
  requiredApprovals :: "string list"

record access_params =
  ap_userId :: string
  ap_categoryId :: string
  ap_tenantId :: string
  ap_action :: string

definition left_join :: "'a list \<Rightarrow> ('a \<Rightarrow> 'b \<Rightarrow> bool) \<Rightarrow> 'b list \<Rightarrow> ('a \<times> 'b option) list" where
  "left_join xs on ys =
     concat (map (\<lambda>x. case filter (on x) ys of
                         [] \<Rightarrow> [(x, None)]
                       | ms \<Rightarrow> map (\<lambda>m. (x, Some m)) ms) xs)"

type_synonym rule_row = "(access_rule \<times> user_group option) \<times> membership option"

definition rule_of :: "rule_row \<Rightarrow> access_rule" where
  "rule_of row = fst (fst row)"

definition rule_type :: "rule_row \<Rightarrow> string" where
  "rule_type row =
     (if car_user_id (rule_of row) \<noteq> None then ''user''
      else if car_group_id (rule_of row) \<noteq> None then ''group''
      else ''global'')"

definition rule_matches :: "access_params \<Rightarrow> rule_row \<Rightarrow> bool" where
  \<comment> \<open>the WHERE clause; a comparison with NULL is not true\<close>
  "rule_matches p row =
     (let car = rule_of row in
      car_tenant_id car = ap_tenantId p \<and> car_category_id car = ap_categoryId p \<and>
      (car_user_id car = Some (ap_userId p) \<or>
       (car_group_id car \<noteq> None \<and>
          (case snd row of None \<Rightarrow> False | Some gm \<Rightarrow> gm_membership_status gm = ''active'')) \<or>
       car_rule_scope car = ''global''))"

definition matching_rules :: "access_params \<Rightarrow> b2b_db \<Rightarrow> rule_row list" where
  \<comment> \<open>FROM, the two LEFT JOINs and WHERE, before ORDER BY\<close>
  "matching_rules p db =
     filter (rule_matches p)
       (left_join
          (left_join (b2b_category_access_rules db)
             (\<lambda>car bg. car_group_id car = Some (bg_id bg)) (b2b_user_groups db))
          (\<lambda>row gm. car_group_id (fst row) = Some (gm_group_id gm) \<and> gm_user_id gm = ap_userId p)
          (b2b_group_memberships db))"

definition rule_order :: "rule_row \<Rightarrow> int \<times> nat" where
  \<comment> \<open>ORDER BY car.priority DESC, car.created_at ASC\<close>
  "rule_order row = (- car_priority (rule_of row), car_created_at (rule_of row))"

definition all_actions :: "string list" where
  "all_actions = [''view_product'', ''view_price'', ''add_to_cart'', ''purchase'']"

definition apply_rule :: "rule_row \<Rightarrow> CategoryAccessResult" where
  \<comment> \<open>the \<open>switch\<close> on the primary rule and the returned object\<close>
  "apply_rule primaryRule =
     (let access_type = car_access_type (rule_of primaryRule);
          init = (access_type = ''allow'', level_none, [], []);
          (hasAccess, restrictionLevel, allowedActions, requiredApprovals) =
            (if access_type = ''allow'' then (True, level_none, all_actions, [])
             else if access_type = ''deny'' then (False, level_full, [], [])
             else if access_type = ''request_approval''
               then (True, level_partial, [''view_product'', ''view_price''], [''purchase_approval''])
             else init)
      in \<lparr>hasAccess = hasAccess, restrictionLevel = restrictionLevel,
          restrictionReason =
            (if \<not> hasAccess
               then Some (''Category access denied by '' @ rule_type primaryRule @ '' rule'')
             else if access_type = ''request_approval''
               then Some ''Purchase requires approval for this category''
             else None),
          allowedActions = allowedActions, requiredApprovals = requiredApprovals\<rparr>)"

definition checkUserCategoryAccess :: "access_params \<Rightarrow> b2b_db \<Rightarrow> CategoryAccessResult" where
  "checkUserCategoryAccess p db =
     (if \<not> db_available db
        then \<lparr>hasAccess = False, restrictionLevel = level_full,
              restrictionReason = Some ''Category access check failed'',
              allowedActions = [], requiredApprovals = []\<rparr>
      else case sort_key rule_order (matching_rules p db) of
             [] \<Rightarrow> \<lparr>hasAccess = True, restrictionLevel = level_none, restrictionReason = None,
                     allowedActions = all_actions, requiredApprovals = []\<rparr>
           | primaryRule # _ \<Rightarrow> apply_rule primaryRule)"

subsection \<open>removeUserFromB2BGroup\<close>

record b2b_user =
  user_id :: string
  user_email :: "string option"
  user_username :: "string option"

record auth_reply =
  reply_success :: bool
  reply_tenantId :: "string option"
  reply_user :: "b2b_user option"
  reply_hasPermission :: "bool option"

type_synonym auth_bus = "(((string \<times> string) list), auth_reply) bus"

definition getSecureTenantId :: "auth_bus \<Rightarrow> error + string" where
  "getSecureTenantId call =
     (case call ''auth/AuthenticationCore'' ''getCurrentTenant'' [] of
        Inl _ \<Rightarrow> Inl (Error ''Authentication required'')
      | Inr authResult \<Rightarrow>
          (case reply_tenantId authResult of
             None \<Rightarrow> Inl (Error ''Authentication required'')
           | Some t \<Rightarrow>
               if \<not> reply_success authResult \<or> t = []
                 then Inl (Error ''Authentication required'')
               else Inr t))"

definition getCurrentUser :: "auth_bus \<Rightarrow> b2b_user option" where
  "getCurrentUser call =
     (case call ''auth/AuthenticationCore'' ''getCurrentUser'' [] of
        Inl _ \<Rightarrow> None
      | Inr authResult \<Rightarrow> if \<not> reply_success authResult then None else reply_user authResult)"

definition hasPermission :: "auth_bus \<Rightarrow> string \<Rightarrow> string \<Rightarrow> string \<Rightarrow> bool" where
  "hasPermission call userId tid permission =
     (case call ''auth/AuthenticationCore'' ''checkPermission''
             [(''userId'', userId), (''tenantId'', tid), (''permission'', permission)] of
        Inl _ \<Rightarrow> False
      | Inr permResult \<Rightarrow> reply_success permResult \<and> reply_hasPermission permResult = Some True)"

record remove_params =
  rp_userId :: string
  rp_groupId :: string
  rp_tenantId :: "string option"

record remove_result =
  rr_success :: bool
  rr_message :: string
  rr_error :: "string option"

definition membership_matches :: "string \<Rightarrow> string \<Rightarrow> string \<Rightarrow> membership \<Rightarrow> bool" where
  \<comment> \<open>WHERE tenant_id = $1 AND user_id = $2 AND group_id = $3\<close>
  "membership_matches tid uid gid m =
     (gm_tenant_id m = tid \<and> gm_user_id m = uid \<and> gm_group_id m = gid)"

definition revoke_memberships :: "string \<Rightarrow> string \<Rightarrow> string \<Rightarrow> b2b_db \<Rightarrow> nat \<times> b2b_db" where
  \<comment> \<open>the UPDATE statement: the row count and the table afterwards\<close>
  "revoke_memberships tid uid gid db =
     (length (filter (membership_matches tid uid gid) (b2b_group_memberships db)),
      db\<lparr>b2b_group_memberships :=
           map (\<lambda>m. if membership_matches tid uid gid m
                     then m\<lparr>gm_membership_status := ''revoked'',
                            gm_updated_at := current_timestamp db\<rparr>
                     else m)
             (b2b_group_memberships db)\<rparr>)"

definition remove_failed :: "string \<Rightarrow> remove_result" where
  "remove_failed msg = \<lparr>rr_success = False, rr_message = [], rr_error = Some msg\<rparr>"

definition resolve_tenant :: "auth_bus \<Rightarrow> remove_params \<Rightarrow> error + string" where
  \<comment> \<open>\<open>params.tenantId || await getSecureTenantId()\<close>\<close>
  "resolve_tenant call params =
     (case rp_tenantId params of
        Some t \<Rightarrow> if t = [] then getSecureTenantId call else Inr t
      | None \<Rightarrow> getSecureTenantId call)"

definition removeUserFromB2BGroup :: "auth_bus \<Rightarrow> remove_params \<Rightarrow> b2b_db \<Rightarrow> remove_result \<times> b2b_db" where
  "removeUserFromB2BGroup call params db =
     (case resolve_tenant call params of
        Inl _ \<Rightarrow> (remove_failed ''Failed to remove user from B2B group'', db)
      | Inr tid \<Rightarrow>
          (case getCurrentUser call of
             None \<Rightarrow> (remove_failed ''Authentication required'', db)
           | Some user \<Rightarrow>
               if \<not> hasPermission call (user_id user) tid ''b2b.memberships.delete''
                 then (remove_failed ''Insufficient permissions to remove users from B2B groups'', db)
               else if \<not> db_available db
                 then (remove_failed ''Failed to remove user from B2B group'', db)
               else (let (rowCount, db') =
                           revoke_memberships tid (rp_userId params) (rp_groupId params) db
                     in if rowCount = 0
                          then (remove_failed ''Membership not found or already revoked'', db')
                        else (\<lparr>rr_success = True,
                               rr_message = ''User successfully removed from B2B group'',
                               rr_error = None\<rparr>, db'))))"

section \<open>Notions used to state the properties\<close>

subsection \<open>Configuration lookup\<close>


text \<open>Some store operation issued between two worlds was rejected.\<close>

definition rejected_during :: "world \<Rightarrow> world \<Rightarrow> bool" where
  "rejected_during w w' = (\<exists>i \<in> {length (oplog w)..<length (oplog w')}. faults w i)"

definition error_fallback_rates :: region_rates where
  "error_fallback_rates =
     \<lparr>taxMultiplier = 1, description = ''Emergency fallback rate due to database error'',
      source = ''error_fallback''\<rparr>"

text \<open>
  The precedence chain in the words of the specification: the cached entry, else the
  tenant-scoped exact-match row, else the tenant default row, else the constant 1.
\<close>

definition region_precedence :: "string \<Rightarrow> string \<Rightarrow> world \<Rightarrow> region_rates" where
  "region_precedence reg tid w =
     (case live (region_cache w) (''tax_regions:'' @ tid @ '':'' @ reg) (now w) of
        Some (Parsed d) \<Rightarrow> with_source d ''database_cached''
      | _ \<Rightarrow>
        (case region_exact_rows tid (toUpperCase reg) w of
           r # _ \<Rightarrow>
             \<lparr>taxMultiplier = rm_tax_multiplier r,
              description = or_else (rm_description r) (''Regional tax adjustment for '' @ reg),
              source = ''database''\<rparr>
         | [] \<Rightarrow>
           (case region_default_rows tid w of
              r # _ \<Rightarrow>
                \<lparr>taxMultiplier = rm_tax_multiplier r,
                 description = or_else (rm_description r) ''Default tax rate for unspecified regions'',
                 source = ''database_default''\<rparr>
            | [] \<Rightarrow>
                \<lparr>taxMultiplier = 1,
                 description = ''Emergency fallback rate - no database configuration found'',
                 source = ''emergency_fallback''\<rparr>)))"

text \<open>A computation never shortens the operation log; it issues at least one operation.\<close>

definition keeps_log :: "'a io \<Rightarrow> bool" where
  "keeps_log m = (\<forall>w. length (oplog w) \<le> length (oplog (snd (m w))))"

definition issues_op :: "'a io \<Rightarrow> bool" where
  "issues_op m = (\<forall>w. length (oplog w) < length (oplog (snd (m w))))"

subsection \<open>Fee tiers in the words of the specification\<close>

text \<open>
  A tier's range contains an amount when the amount is at least the lower bound and
  below the upper bound, a tier without an upper bound being open above.
\<close>

definition range_contains :: "rat \<Rightarrow> fee_tier \<Rightarrow> bool" where
  "range_contains a t =
     (minAmount t \<le> a \<and> (case maxAmount t of Finite m \<Rightarrow> a < m | Infinity \<Rightarrow> True | Null \<Rightarrow> True))"

text \<open>
  The fee as the claim words it: the first tier whose range contains the amount decides,
  by its percentage when one is defined, else by its flat fee.
\<close>

definition claimed_fee :: "rat \<Rightarrow> fee_tier list \<Rightarrow> rat option" where
  "claimed_fee a ts =
     (case find (range_contains a) ts of
        None \<Rightarrow> None
      | Some t \<Rightarrow> Some (case feePercentage t of Some p \<Rightarrow> a * p | None \<Rightarrow> feeAmount t))"

subsection \<open>Example inputs and worlds\<close>

definition empty_world :: world where
  "empty_world =
     \<lparr>tax_region_multipliers = [], fee_structure_tiers = [], item_type_tax_adjustments = [],
      region_cache = Map.empty, tiers_cache = Map.empty, adjust_cache = Map.empty,
      now = 0, faults = (\<lambda>_. False), oplog = []\<rparr>"

definition store_down_world :: world where
  "store_down_world = empty_world\<lparr>faults := (\<lambda>_. True)\<rparr>"


definition luxury_input :: TaxCalculationInput where
  "luxury_input =
     \<lparr>amount = 100, taxRate = 1 / 10, region = None, itemType = Some ''luxury'',
      tenantId = ''t1''\<rparr>"


definition sub_cent_input :: TaxCalculationInput where
  "sub_cent_input =
     \<lparr>amount = 1 / 1024, taxRate = 0, region = None, itemType = None, tenantId = ''t1''\<rparr>"

definition eighth_input :: TaxCalculationInput where
  "eighth_input =
     \<lparr>amount = 100, taxRate = 1 / 8, region = None, itemType = None, tenantId = ''t1''\<rparr>"

definition lagos_row :: region_row where
  "lagos_row =
     \<lparr>rm_tenant_id = ''t1'', rm_region_code = ''LAGOS'', rm_tax_multiplier = 11 / 10,
      rm_description = None, rm_is_default = False, rm_is_active = True\<rparr>"

definition default_row :: region_row where
  "default_row =
     \<lparr>rm_tenant_id = ''t1'', rm_region_code = ''ANY'', rm_tax_multiplier = 21 / 20,
      rm_description = Some ''Standard'', rm_is_default = True, rm_is_active = True\<rparr>"

definition lagos_world :: world where
  "lagos_world = empty_world\<lparr>tax_region_multipliers := [default_row, lagos_row]\<rparr>"

definition flaky_world :: world where
  "flaky_world = lagos_world\<lparr>faults := (\<lambda>n. n = 1)\<rparr>"

definition zero_percent_tier :: fee_tier where
  "zero_percent_tier =
     \<lparr>minAmount = 0, maxAmount = Finite 100, feeAmount = 2, feePercentage = Some 0\<rparr>"

definition small_tier_row :: tier_row where
  "small_tier_row =
     \<lparr>ft_tenant_id = ''t1'', ft_tier_order = 1, ft_min_amount = 0, ft_max_amount = Some 100,
      ft_fee_amount = 2, ft_fee_percentage = None, ft_is_active = True\<rparr>"

definition open_tier_row :: tier_row where
  "open_tier_row =
     \<lparr>ft_tenant_id = ''t1'', ft_tier_order = 2, ft_min_amount = 100, ft_max_amount = None,
      ft_fee_amount = 5, ft_fee_percentage = Some (1 / 50), ft_is_active = True\<rparr>"

definition tier_world :: world where
  "tier_world = empty_world\<lparr>fee_structure_tiers := [open_tier_row, small_tier_row]\<rparr>"

definition lagos_first :: "(error + region_rates) \<times> world" where
  "lagos_first = getRegionRates ''Lagos'' ''t1'' lagos_world"

definition lagos_rates :: region_rates where
  "lagos_rates =
     \<lparr>taxMultiplier = 11 / 10, description = ''Regional tax adjustment for Lagos'',
      source = ''database''\<rparr>"

subsection \<open>Example requests and tables\<close>

definition no_handlers :: "(unit, unit) bus" where
  "no_handlers = cellBus_call Map.empty"

definition failing_handler :: "string \<Rightarrow> unit \<Rightarrow> thrown + unit" where
  "failing_handler action payload = Inl (ErrorObject ''boom'')"

definition missing_cell_path :: "string list option" where
  "missing_cell_path = Some [''inventory'', ''Missing'', ''actions'', ''calculate'']"

text \<open>The path check of the POST handler, read positively.\<close>

definition valid_path :: "string list option \<Rightarrow> bool" where
  "valid_path cellPath =
     (case cellPath of None \<Rightarrow> False | Some cp \<Rightarrow> 4 \<le> length cp \<and> cp ! 2 = ''actions'')"

definition rule_allow :: access_rule where
  "rule_allow =
     \<lparr>car_id = ''r1'', car_tenant_id = ''t1'', car_category_id = ''c1'', car_rule_scope = ''global'',
      car_user_id = None, car_group_id = None, car_access_type = ''allow'', car_priority = 5,
      car_created_at = 10\<rparr>"

definition rule_deny :: access_rule where
  "rule_deny =
     \<lparr>car_id = ''r2'', car_tenant_id = ''t1'', car_category_id = ''c1'', car_rule_scope = ''user'',
      car_user_id = Some ''u1'', car_group_id = None, car_access_type = ''deny'', car_priority = 8,
      car_created_at = 20\<rparr>"

definition rule_approval :: access_rule where
  "rule_approval =
     \<lparr>car_id = ''r3'', car_tenant_id = ''t1'', car_category_id = ''c1'', car_rule_scope = ''group'',
      car_user_id = None, car_group_id = Some ''g1'', car_access_type = ''request_approval'',
      car_priority = 8, car_created_at = 15\<rparr>"

definition member_u1 :: membership where
  "member_u1 =
     \<lparr>gm_id = ''m1'', gm_tenant_id = ''t1'', gm_user_id = ''u1'', gm_group_id = ''g1'',
      gm_membership_status = ''active'', gm_membership_type = ''regular'',
      gm_effective_date = ''2025-09-17'', gm_expiry_date = None, gm_auto_renewal = True,
      gm_renewal_period_months = 12, gm_discount_percentage = 0, gm_credit_limit_override = None,
      gm_sales_rep_id = None, gm_territory = None, gm_business_registration = None,
      gm_tax_identification = None, gm_created_by = ''admin'', gm_updated_at = 1\<rparr>"

definition member_u2 :: membership where
  "member_u2 = member_u1\<lparr>gm_id := ''m2'', gm_user_id := ''u2''\<rparr>"

definition example_db :: b2b_db where
  "example_db =
     \<lparr>b2b_category_access_rules = [rule_allow, rule_deny, rule_approval],
      b2b_user_groups = [\<lparr>bg_id = ''g1'', bg_group_name = ''Wholesale''\<rparr>],
      b2b_group_memberships = [member_u1, member_u2],
      db_available = True, current_timestamp = 100\<rparr>"

definition example_access :: access_params where
  "example_access =
     \<lparr>ap_userId = ''u1'', ap_categoryId = ''c1'', ap_tenantId = ''t1'', ap_action = ''view_product''\<rparr>"

definition admin_bus :: auth_bus where
  "admin_bus cellId action payload =
     Inr \<lparr>reply_success = True, reply_tenantId = Some ''t1'',
          reply_user = Some \<lparr>user_id = ''admin'', user_email = None, user_username = None\<rparr>,
          reply_hasPermission = Some True\<rparr>"

definition remove_u1 :: remove_params where
  "remove_u1 = \<lparr>rp_userId = ''u1'', rp_groupId = ''g1'', rp_tenantId = Some ''t1''\<rparr>"

definition remove_u9 :: remove_params where
  "remove_u9 = \<lparr>rp_userId = ''u9'', rp_groupId = ''g1'', rp_tenantId = None\<rparr>"

section \<open>Properties of the TaxAndFee cell\<close>

lemmas io_defs = return_io_def throw_io_def bind_io_def catch_io_def store_call_def json_parse_def

lemma catch_return_total: "\<exists>x. fst (catch_io m (\<lambda>_. return_io y) w) = Inr x"
  by (cases "m w"; cases "fst (m w)") (auto simp: catch_io_def return_io_def)

lemma region_exact_rows_oplog [simp]:
  "region_exact_rows t c (w\<lparr>oplog := l\<rparr>) = region_exact_rows t c w"
  by (simp add: region_exact_rows_def)

lemma region_default_rows_oplog [simp]:
  "region_default_rows t (w\<lparr>oplog := l\<rparr>) = region_default_rows t w"
  by (simp add: region_default_rows_def)

lemmas region_defs = getRegionRates_def getRegionRates_try_def io_defs region_setex_def Let_def
  rejected_during_def error_fallback_rates_def region_precedence_def with_source_def
  regionMultipliers_def atLeastLessThanSuc

text \<open>What a resolution returns and what it leaves in the cache, path by path.\<close>

lemma getRegionRates_paths:
  assumes tid: "tid \<noteq> []"
  shows "fst (getRegionRates reg tid w) =
           Inr (if rejected_during w (snd (getRegionRates reg tid w))
                   \<or> live (region_cache w) (''tax_regions:'' @ tid @ '':'' @ reg) (now w) = Some Corrupt
                then error_fallback_rates else region_precedence reg tid w)"
    and "region_cache (snd (getRegionRates reg tid w)) =
           (case fst (getRegionRates reg tid w) of
              Inl _ \<Rightarrow> region_cache w
            | Inr r \<Rightarrow>
                if source r = ''database''
                then (region_cache w)(''tax_regions:'' @ tid @ '':'' @ reg \<mapsto>
                       (Parsed \<lparr>taxMultiplier = taxMultiplier r, description = description r\<rparr>,
                        now w + 3600))
                else region_cache w)"
proof -
  let ?P = "fst (getRegionRates reg tid w) =
           Inr (if rejected_during w (snd (getRegionRates reg tid w))
                   \<or> live (region_cache w) (''tax_regions:'' @ tid @ '':'' @ reg) (now w) = Some Corrupt
                then error_fallback_rates else region_precedence reg tid w) \<and>
     region_cache (snd (getRegionRates reg tid w)) =
           (case fst (getRegionRates reg tid w) of
              Inl _ \<Rightarrow> region_cache w
            | Inr r \<Rightarrow>
                if source r = ''database''
                then (region_cache w)(''tax_regions:'' @ tid @ '':'' @ reg \<mapsto>
                       (Parsed \<lparr>taxMultiplier = taxMultiplier r, description = description r\<rparr>,
                        now w + 3600))
                else region_cache w)"
  have ?P
  proof (cases "faults w (length (oplog w))")
    case True
    with tid show ?thesis by (simp add: region_defs)
  next
    case f0: False
    show ?thesis
    proof (cases "live (region_cache w) (''tax_regions:'' @ tid @ '':'' @ reg) (now w)")
      case (Some c)
      with tid f0 show ?thesis by (cases c) (simp_all add: region_defs)
    next
      case None
      show ?thesis
      proof (cases "faults w (Suc (length (oplog w)))")
        case True
        with tid f0 None show ?thesis by (simp add: region_defs)
      next
        case f1: False
        show ?thesis
        proof (cases "region_exact_rows tid (toUpperCase reg) w")
          case (Cons r rs)
          with tid f0 None f1 show ?thesis
            by (cases "faults w (Suc (Suc (length (oplog w))))") (simp_all add: region_defs)
        next
          case Nil
          show ?thesis
          proof (cases "faults w (Suc (Suc (length (oplog w))))")
            case True
            with tid f0 None f1 Nil show ?thesis by (simp add: region_defs)
          next
            case f2: False
            with tid f0 None f1 Nil show ?thesis
              by (cases "region_default_rows tid w") (simp_all add: region_defs)
          qed
        qed
      qed
    qed
  qed
  then show "fst (getRegionRates reg tid w) =
           Inr (if rejected_during w (snd (getRegionRates reg tid w))
                   \<or> live (region_cache w) (''tax_regions:'' @ tid @ '':'' @ reg) (now w) = Some Corrupt
                then error_fallback_rates else region_precedence reg tid w)"
    and "region_cache (snd (getRegionRates reg tid w)) =
           (case fst (getRegionRates reg tid w) of
              Inl _ \<Rightarrow> region_cache w
            | Inr r \<Rightarrow>
                if source r = ''database''
                then (region_cache w)(''tax_regions:'' @ tid @ '':'' @ reg \<mapsto>
                       (Parsed \<lparr>taxMultiplier = taxMultiplier r, description = description r\<rparr>,
                        now w + 3600))
                else region_cache w)"
    by simp_all
qed

subsection \<open>The three lookups of calculate always return\<close>

lemma getRegionTaxMultiplier_returns: "\<exists>m. fst (getRegionTaxMultiplier reg tid w) = Inr m"
  unfolding getRegionTaxMultiplier_def by (rule catch_return_total)

lemma calculateProcessingFeeFromDatabase_returns:
  "\<exists>f. fst (calculateProcessingFeeFromDatabase a tid w) = Inr f"
  unfolding calculateProcessingFeeFromDatabase_def by (rule catch_return_total)

lemma getItemTypeAdjustmentFromDatabase_returns:
  "\<exists>m. fst (getItemTypeAdjustmentFromDatabase it tid w) = Inr m"
  unfolding getItemTypeAdjustmentFromDatabase_def by (rule catch_return_total)

lemma calculate_try_assembles:
  "\<exists>m f a. fst (calculate_try input w) = Inr (assemble (amount input) (taxRate input) m f a)"
proof -
  let ?reg = "case region input of None \<Rightarrow> ''default'' | Some r \<Rightarrow> r"
  let ?it = "case itemType input of None \<Rightarrow> ''general'' | Some t \<Rightarrow> t"
  obtain m w1 where r: "getRegionTaxMultiplier ?reg (tenantId input) w = (Inr m, w1)"
    using getRegionTaxMultiplier_returns[of ?reg "tenantId input" w]
    by (cases "getRegionTaxMultiplier ?reg (tenantId input) w") auto
  obtain f w2 where f: "calculateProcessingFeeFromDatabase (amount input) (tenantId input) w1 = (Inr f, w2)"
    using calculateProcessingFeeFromDatabase_returns[of "amount input" "tenantId input" w1]
    by (cases "calculateProcessingFeeFromDatabase (amount input) (tenantId input) w1") auto
  obtain a w3 where a: "getItemTypeAdjustmentFromDatabase ?it (tenantId input) w2 = (Inr a, w3)"
    using getItemTypeAdjustmentFromDatabase_returns[of ?it "tenantId input" w2]
    by (cases "getItemTypeAdjustmentFromDatabase ?it (tenantId input) w2") auto
  have "fst (calculate_try input w) = Inr (assemble (amount input) (taxRate input) m f a)"
    by (simp add: calculate_try_def bind_io_def return_io_def r f a)
  then show ?thesis by blast
qed

lemma calculate_valid_assembles:
  assumes "0 \<le> amount input" "0 \<le> taxRate input" "taxRate input \<le> 1" "tenantId input \<noteq> []"
  shows "\<exists>m f a. fst (calculate input w) = Inr (assemble (amount input) (taxRate input) m f a)"
proof -
  obtain m f a where "fst (calculate_try input w) = Inr (assemble (amount input) (taxRate input) m f a)"
    using calculate_try_assembles by blast
  then have "fst (calculate input w) = Inr (assemble (amount input) (taxRate input) m f a)"
    using assms by (cases "calculate_try input w") (simp add: calculate_def catch_io_def)
  then show ?thesis by blast
qed

subsection \<open>The operation log only grows\<close>

lemma keeps_return [intro!, simp]: "keeps_log (return_io x)"
  by (simp add: keeps_log_def return_io_def)

lemma keeps_throw [intro!, simp]: "keeps_log (throw_io e)"
  by (simp add: keeps_log_def throw_io_def)

lemma issues_store_call [intro!, simp]: "issues_op (store_call op rd)"
  by (simp add: issues_op_def store_call_def Let_def)

lemma issues_keeps: "issues_op m \<Longrightarrow> keeps_log m"
  by (auto simp: issues_op_def keeps_log_def intro: less_imp_le)

lemma keeps_bind [intro!]:
  assumes "keeps_log m" "\<And>x. keeps_log (f x)"
  shows "keeps_log (bind_io m f)"
  unfolding keeps_log_def
proof
  fix w
  show "length (oplog w) \<le> length (oplog (snd (bind_io m f w)))"
  proof (cases "m w")
    case (Pair r w')
    have 1: "length (oplog w) \<le> length (oplog w')"
      using assms(1) Pair by (auto simp: keeps_log_def dest: spec[of _ w])
    show ?thesis
    proof (cases r)
      case (Inl e)
      with Pair 1 show ?thesis by (simp add: bind_io_def)
    next
      case (Inr x)
      have "length (oplog w') \<le> length (oplog (snd (f x w')))"
        using assms(2)[of x] by (simp add: keeps_log_def)
      with Pair Inr 1 show ?thesis by (simp add: bind_io_def)
    qed
  qed
qed

lemma keeps_catch [intro!]:
  assumes "keeps_log m" "\<And>e. keeps_log (h e)"
  shows "keeps_log (catch_io m h)"
  unfolding keeps_log_def
proof
  fix w
  show "length (oplog w) \<le> length (oplog (snd (catch_io m h w)))"
  proof (cases "m w")
    case (Pair r w')
    have 1: "length (oplog w) \<le> length (oplog w')"
      using assms(1) Pair by (auto simp: keeps_log_def dest: spec[of _ w])
    show ?thesis
    proof (cases r)
      case (Inr x)
      with Pair 1 show ?thesis by (simp add: catch_io_def)
    next
      case (Inl e)
      have "length (oplog w') \<le> length (oplog (snd (h e w')))"
        using assms(2)[of e] by (simp add: keeps_log_def)
      with Pair Inl 1 show ?thesis by (simp add: catch_io_def)
    qed
  qed
qed



lemma keeps_store_call [intro!, simp]: "keeps_log (store_call op rd)"
  by (rule issues_keeps) simp

lemma keeps_json_parse [intro!, simp]: "keeps_log (json_parse c)"
  by (cases c) (simp_all add: json_parse_def)

lemma keeps_region_setex [intro!, simp]: "keeps_log (region_setex k t d)"
  by (simp add: keeps_log_def region_setex_def bind_io_def store_call_def Let_def)

lemma keeps_tiers_setex [intro!, simp]: "keeps_log (tiers_setex k t d)"
  by (simp add: keeps_log_def tiers_setex_def bind_io_def store_call_def Let_def)

lemma keeps_adjust_setex [intro!, simp]: "keeps_log (adjust_setex k t d)"
  by (simp add: keeps_log_def adjust_setex_def bind_io_def store_call_def Let_def)







subsection \<open>An unconfigured tenant\<close>









text \<open>
  C2: for every non-empty tenant and every region, \<open>getRegionRates\<close> returns a value
  and never an error. When a store operation it issues is rejected, or the cached text
  does not parse, the value is multiplier 1 with source \<open>error_fallback\<close>; otherwise it is
  the cached entry, else the tenant's exact-match row, else the tenant's default row,
  else the constant 1.
\<close>

theorem getRegionRates_always_resolves:
  assumes "tid \<noteq> []"
  shows "fst (getRegionRates reg tid w) =
           Inr (if rejected_during w (snd (getRegionRates reg tid w))
                   \<or> live (region_cache w) (''tax_regions:'' @ tid @ '':'' @ reg) (now w) = Some Corrupt
                then error_fallback_rates else region_precedence reg tid w)"
  using assms by (rule getRegionRates_paths(1))

text \<open>
  C2 at a tenant with a default row and a row for another region: the default row
  answers; when the second store operation is rejected, the error fallback answers.
\<close>

theorem getRegionRates_always_resolves_witness:
  "''t1'' \<noteq> [] \<and>
   fst (getRegionRates ''Abuja'' ''t1'' lagos_world) =
     Inr \<lparr>taxMultiplier = 21 / 20, description = ''Standard'', source = ''database_default''\<rparr> \<and>
   fst (getRegionRates ''Abuja'' ''t1'' flaky_world) =
     Inr \<lparr>taxMultiplier = 1, description = ''Emergency fallback rate due to database error'',
          source = ''error_fallback''\<rparr>"
proof -
  have t: "''t1'' \<noteq> []" by simp
  have len: "length (oplog (snd (getRegionRates ''Abuja'' ''t1'' lagos_world))) = 3"
    "length (oplog (snd (getRegionRates ''Abuja'' ''t1'' flaky_world))) = 2"
    by code_simp+
  have start: "length (oplog lagos_world) = 0" "faults lagos_world = (\<lambda>_. False)"
    "length (oplog flaky_world) = 0" "faults flaky_world = (\<lambda>n. n = 1)"
    by (simp_all add: flaky_world_def lagos_world_def empty_world_def)
  have ok: "\<not> rejected_during lagos_world (snd (getRegionRates ''Abuja'' ''t1'' lagos_world))"
    by (simp add: rejected_during_def len start)
  have bad: "rejected_during flaky_world (snd (getRegionRates ''Abuja'' ''t1'' flaky_world))"
    by (simp add: rejected_during_def len start)
  have miss: "live (region_cache lagos_world) (''tax_regions:'' @ ''t1'' @ '':'' @ ''Abuja'')
                (now lagos_world) \<noteq> Some Corrupt"
    by (simp add: lagos_world_def empty_world_def live_def)
  have chain: "region_precedence ''Abuja'' ''t1'' lagos_world =
      \<lparr>taxMultiplier = 21 / 20, description = ''Standard'', source = ''database_default''\<rparr>"
    by code_simp
  show ?thesis
    using t getRegionRates_always_resolves[OF t, of "''Abuja''" lagos_world]
      getRegionRates_always_resolves[OF t, of "''Abuja''" flaky_world] miss
    by (simp add: ok bad chain error_fallback_rates_def)
qed

text \<open>
  C3: when every store operation is rejected, the result should come from the base rate
  alone and carry the source \<open>fallback_hardcoded\<close>. Each of the three lookups absorbs
  its own failure, so the \<open>catch\<close> of \<open>calculate\<close> is never entered: for amount 100, rate
  0.1 and item type luxury the tax is 12, not 10, and the source is \<open>database\<close>.
\<close>

theorem store_down_keeps_database_source:
  "fst (calculate luxury_input store_down_world) =
     Inr \<lparr>subtotal = 100, tax = 12, fees = 5 / 2, total = 229 / 2,
          breakdown = \<lparr>baseTax = 10, regionTax = 0, processingFee = 5 / 2\<rparr>,
          configurationSource = database\<rparr>"
  by code_simp

text \<open>No input and no world lead \<open>calculate\<close> into its emergency fallback.\<close>

lemma calculate_never_emergency:
  "fst (calculate input w) \<noteq> Inr (calculateWithEmergencyFallback input)"
proof (cases "0 \<le> amount input \<and> 0 \<le> taxRate input \<and> taxRate input \<le> 1 \<and> tenantId input \<noteq> []")
  case True
  then obtain m f a where
    "fst (calculate input w) = Inr (assemble (amount input) (taxRate input) m f a)"
    using calculate_valid_assembles[of input w] by blast
  then show ?thesis
    by (simp add: assemble_def calculateWithEmergencyFallback_def Let_def)
next
  case False
  then show ?thesis
    by (auto simp: calculate_def throw_io_def not_le)
qed



subsection \<open>The total of a result\<close>

text \<open>
  At the rational instance, with the lookups' outcomes taken from a world,
  \<open>calculate_with\<close> is \<open>calculate\<close>.
\<close>

lemma calculate_agrees:
  "map_sum (\<lambda>e. e) generic_result (fst (calculate input w)) =
     calculate_with rat_arith (outcomes_in input w) (amount input) (taxRate input) (tenantId input)"
  by (simp add: calculate_def calculate_try_def calculate_with_def outcomes_in_def rat_arith_def
      generic_result_def assemble_def assemble_with_def calculateWithEmergencyFallback_def
      calculateWithEmergencyFallback_with_def calculateProcessingFeeHardcodedFallback_def
      calculateProcessingFeeHardcodedFallback_with_def
      catch_io_def bind_io_def return_io_def throw_io_def Let_def
      split: prod.splits sum.splits)

text \<open>
  C5, as stated: for every valid input the total equals amount + tax + fees exactly.
  The total is itself rounded to two decimals and the amount is not: for amount
  0.0009765625 (1/1024, exact as a double), rate 0 and no configuration, the tax is 0,
  the fees are 1.25, the sum is 1.2509765625 and the total is 1.25.
\<close>

theorem sub_cent_total_counterexample:
  "fst (calculate sub_cent_input empty_world) =
     Inr \<lparr>subtotal = 1 / 1024, tax = 0, fees = 5 / 4, total = 5 / 4,
          breakdown = \<lparr>baseTax = 0, regionTax = 0, processingFee = 5 / 4\<rparr>,
          configurationSource = database\<rparr>
   \<and> (5 / 4 :: rat) \<noteq> 1 / 1024 + 0 + 5 / 4"
  by code_simp

text \<open>
  C5, amended: in whatever arithmetic the numbers live, for every input that passes the
  three checks (amount not below 0, rate neither below 0 nor above 1, tenant id not empty)
  and whatever the three lookups come back with, \<open>calculate\<close> returns a result whose tax
  and fees are two-decimal roundings and whose total is the two-decimal rounding of
  amount + tax + fees, taken with the tax and fees of that same result. The total is that
  sum itself exactly when the rounding leaves the sum unchanged.
\<close>

theorem calculate_with_total_rounded:
  assumes "\<not> js_less A amt (js_literal A 0)"
    and "\<not> js_less A rate (js_literal A 0)"
    and "\<not> js_less A (js_literal A 1) rate"
    and "tid \<noteq> []"
  shows "\<exists>r. calculate_with A L amt rate tid = Inr r \<and>
           c_subtotal r = amt \<and>
           (\<exists>t. c_tax r = js_toFixed2 A t) \<and>
           (\<exists>f. c_fees r = js_toFixed2 A f) \<and>
           c_total r = js_toFixed2 A (js_plus A (js_plus A amt (c_tax r)) (c_fees r)) \<and>
           (c_total r = js_plus A (js_plus A amt (c_tax r)) (c_fees r)) =
             (js_toFixed2 A (js_plus A (js_plus A amt (c_tax r)) (c_fees r)) =
                js_plus A (js_plus A amt (c_tax r)) (c_fees r))"
proof -
  let ?e = "calculateWithEmergencyFallback_with A amt rate"
  have e: "c_subtotal ?e = amt \<and> (\<exists>t. c_tax ?e = js_toFixed2 A t) \<and>
           (\<exists>f. c_fees ?e = js_toFixed2 A f) \<and>
           c_total ?e = js_toFixed2 A (js_plus A (js_plus A amt (c_tax ?e)) (c_fees ?e))"
    by (auto simp: calculateWithEmergencyFallback_with_def Let_def)
  have a: "\<And>m f i. c_subtotal (assemble_with A amt rate m f i) = amt \<and>
           (\<exists>t. c_tax (assemble_with A amt rate m f i) = js_toFixed2 A t) \<and>
           (\<exists>g. c_fees (assemble_with A amt rate m f i) = js_toFixed2 A g) \<and>
           c_total (assemble_with A amt rate m f i) =
             js_toFixed2 A (js_plus A (js_plus A amt (c_tax (assemble_with A amt rate m f i)))
                              (c_fees (assemble_with A amt rate m f i)))"
    by (auto simp: assemble_with_def Let_def)
  have "\<exists>r. calculate_with A L amt rate tid = Inr r \<and>
           c_subtotal r = amt \<and>
           (\<exists>t. c_tax r = js_toFixed2 A t) \<and>
           (\<exists>f. c_fees r = js_toFixed2 A f) \<and>
           c_total r = js_toFixed2 A (js_plus A (js_plus A amt (c_tax r)) (c_fees r))"
  proof (cases "region_outcome L")
    case Inl
    with assms e show ?thesis by (simp add: calculate_with_def)
  next
    case (Inr m)
    show ?thesis
    proof (cases "fee_outcome L")
      case Inl
      with assms e Inr show ?thesis by (simp add: calculate_with_def)
    next
      case f: (Inr f)
      show ?thesis
      proof (cases "item_outcome L")
        case Inl
        with assms e Inr f show ?thesis by (simp add: calculate_with_def)
      next
        case i: (Inr i)
        with assms a[of m f i] Inr f show ?thesis by (simp add: calculate_with_def)
      qed
    qed
  qed
  then obtain r where r: "calculate_with A L amt rate tid = Inr r" "c_subtotal r = amt"
    "\<exists>t. c_tax r = js_toFixed2 A t" "\<exists>f. c_fees r = js_toFixed2 A f"
    "c_total r = js_toFixed2 A (js_plus A (js_plus A amt (c_tax r)) (c_fees r))"
    by blast
  from r(5) have "(c_total r = js_plus A (js_plus A amt (c_tax r)) (c_fees r)) =
             (js_toFixed2 A (js_plus A (js_plus A amt (c_tax r)) (c_fees r)) =
                js_plus A (js_plus A amt (c_tax r)) (c_fees r))"
    by simp
  with r show ?thesis by blast
qed

text \<open>
  C5, amended, at the rational instance: amount 100, rate 0.125 and no configuration give
  tax 12.5, fees 2.5 and total 115 (all exact as doubles).
\<close>

theorem calculate_with_total_rounded_witness:
  "\<not> js_less rat_arith 100 (js_literal rat_arith 0) \<and>
   \<not> js_less rat_arith (1 / 8) (js_literal rat_arith 0) \<and>
   \<not> js_less rat_arith (js_literal rat_arith 1) (1 / 8) \<and>
   ''t1'' \<noteq> [] \<and>
   calculate_with rat_arith (outcomes_in eighth_input empty_world) 100 (1 / 8) ''t1'' =
     Inr \<lparr>c_subtotal = 100, c_tax = 25 / 2, c_fees = 5 / 2, c_total = 115,
          c_breakdown = \<lparr>c_baseTax = 25 / 2, c_regionTax = 0, c_processingFee = 5 / 2\<rparr>,
          c_configurationSource = database\<rparr> \<and>
   js_toFixed2 rat_arith (js_plus rat_arith (js_plus rat_arith 100 (25 / 2)) (5 / 2)) = 115"
proof -
  have h: "\<not> js_less rat_arith 100 (js_literal rat_arith 0)"
    "\<not> js_less rat_arith (1 / 8) (js_literal rat_arith 0)"
    "\<not> js_less rat_arith (js_literal rat_arith 1) (1 / 8)"
    by (simp_all add: rat_arith_def)
  have t: "''t1'' \<noteq> []" by simp
  have v: "calculate_with rat_arith (outcomes_in eighth_input empty_world) 100 (1 / 8) ''t1'' =
     Inr \<lparr>c_subtotal = 100, c_tax = 25 / 2, c_fees = 5 / 2, c_total = 115,
          c_breakdown = \<lparr>c_baseTax = 25 / 2, c_regionTax = 0, c_processingFee = 5 / 2\<rparr>,
          c_configurationSource = database\<rparr>"
    by code_simp
  obtain r where r: "calculate_with rat_arith (outcomes_in eighth_input empty_world) 100 (1 / 8) ''t1'' = Inr r"
    and s: "c_total r =
      js_toFixed2 rat_arith (js_plus rat_arith (js_plus rat_arith 100 (c_tax r)) (c_fees r))"
    using calculate_with_total_rounded[OF h t, of "outcomes_in eighth_input empty_world"] by blast
  from r v have "r = \<lparr>c_subtotal = 100, c_tax = 25 / 2, c_fees = 5 / 2, c_total = 115,
          c_breakdown = \<lparr>c_baseTax = 25 / 2, c_regionTax = 0, c_processingFee = 5 / 2\<rparr>,
          c_configurationSource = database\<rparr>"
    by simp
  with s have "js_toFixed2 rat_arith (js_plus rat_arith (js_plus rat_arith 100 (25 / 2)) (5 / 2)) = 115"
    by simp
  with h t v show ?thesis by blast
qed

text \<open>
  C6, as stated: the first tier whose range contains the amount charges the amount times
  its percentage whenever a percentage is defined. The code uses the percentage only when
  it is greater than zero: a tier from 0 to 100 with flat fee 2 and percentage 0 charges
  2 on an amount of 50, not 0.
\<close>

theorem zero_percentage_counterexample:
  "fee_from_tiers 50 [zero_percent_tier] = 2 \<and> claimed_fee 50 [zero_percent_tier] = Some 0"
  by code_simp

subsection \<open>The first tier that contains the amount\<close>

lemma find_first:
  assumes "\<forall>u \<in> set pre. \<not> P u" "P t"
  shows "find P (pre @ t # post) = Some t"
  using assms by (induction pre) auto

lemma in_tier_range_contains: "maxAmount t \<noteq> Null \<Longrightarrow> in_tier a t = range_contains a t"
  by (cases "maxAmount t") (simp_all add: in_tier_def range_contains_def)

text \<open>
  C6, amended: for a tier list as read from the store (no upper bound turned into
  \<open>null\<close> by a trip through the cache), in the order the store returns it, the first
  tier whose range contains the amount decides the fee: the amount times the tier's
  percentage when a percentage is defined and greater than zero, else the tier's flat fee.
\<close>

theorem fee_first_containing_tier:
  assumes "\<forall>u \<in> set (pre @ t # post). maxAmount u \<noteq> Null"
    and "\<forall>u \<in> set pre. \<not> range_contains a u"
    and "range_contains a t"
  shows "fee_from_tiers a (pre @ t # post) =
           (case feePercentage t of
              Some p \<Rightarrow> if 0 < p then a * p else feeAmount t
            | None \<Rightarrow> feeAmount t)"
proof -
  have "\<forall>u \<in> set pre. \<not> in_tier a u"
    using assms(1,2) by (simp add: in_tier_range_contains)
  moreover have "in_tier a t"
    using assms(1,3) by (simp add: in_tier_range_contains)
  ultimately have "find (in_tier a) (pre @ t # post) = Some t"
    by (rule find_first)
  then show ?thesis
    by (auto simp: fee_from_tiers_def tier_fee_def split: option.splits)
qed

text \<open>C6, amended, at two stored tiers and the amount 250, which the open second tier takes.\<close>

theorem fee_first_containing_tier_witness:
  "maxAmount (tier_of_row small_tier_row) \<noteq> Null \<and>
   maxAmount (tier_of_row open_tier_row) \<noteq> Null \<and>
   \<not> range_contains 250 (tier_of_row small_tier_row) \<and>
   range_contains 250 (tier_of_row open_tier_row) \<and>
   fee_from_tiers 250 (map tier_of_row [small_tier_row, open_tier_row]) = 5"
proof -
  have 1: "\<forall>u \<in> set ([tier_of_row small_tier_row] @ tier_of_row open_tier_row # []). maxAmount u \<noteq> Null"
    by (simp add: tier_of_row_def small_tier_row_def open_tier_row_def)
  have 2: "\<forall>u \<in> set [tier_of_row small_tier_row]. \<not> range_contains 250 u"
    by (simp add: tier_of_row_def small_tier_row_def range_contains_def)
  have 3: "range_contains 250 (tier_of_row open_tier_row)"
    by (simp add: tier_of_row_def open_tier_row_def range_contains_def)
  have 4: "(case feePercentage (tier_of_row open_tier_row) of
              Some p \<Rightarrow> if 0 < p then 250 * p else feeAmount (tier_of_row open_tier_row)
            | None \<Rightarrow> feeAmount (tier_of_row open_tier_row)) = 5"
    by (simp add: tier_of_row_def open_tier_row_def)
  show ?thesis
    using fee_first_containing_tier[OF 1 2 3] 1 2 3 4 by simp
qed

text \<open>
  The same tier list read back from the cache: the open tier's bound has become \<open>null\<close>,
  no tier contains 1000 any more, and the fee falls from 2 percent of the amount to the
  flat fee of the last tier.
\<close>

lemma open_tier_lost_in_cache:
  "fst (calculateProcessingFeeFromDatabase 1000 ''t1'' tier_world) = Inr 20 \<and>
   fst (calculateProcessingFeeFromDatabase 1000 ''t1''
          (snd (calculateProcessingFeeFromDatabase 1000 ''t1'' tier_world))) = Inr 5"
  by code_simp

subsection \<open>Cache population\<close>

lemma getRegionRates_cached_hit:
  assumes "tid \<noteq> []" "\<not> faults w (length (oplog w))"
    and "live (region_cache w) (''tax_regions:'' @ tid @ '':'' @ reg) (now w) = Some (Parsed d)"
  shows "fst (getRegionRates reg tid w) = Inr (with_source d ''database_cached'')"
  using assms by (simp add: region_defs)

text \<open>
  C8: a resolution that hits the tenant's exact-match row (no operation rejected, no live
  cache entry, a matching row) has source \<open>database\<close>; such a resolution leaves the value
  in the cache under the key \<open>tax_regions:tenant:region\<close>, expiring 3600 seconds later,
  and a second resolution of the same tenant and region before that time, reading the
  cache as the first left it, returns the same multiplier with source
  \<open>database_cached\<close>; a resolution with any other source leaves the cache as it was.
\<close>

theorem region_cache_population:
  assumes "tid \<noteq> []" and "getRegionRates reg tid w = (Inr r, w1)"
  shows "(\<not> rejected_during w w1 \<and>
          live (region_cache w) (''tax_regions:'' @ tid @ '':'' @ reg) (now w) = None \<and>
          region_exact_rows tid (toUpperCase reg) w \<noteq> [] \<longrightarrow> source r = ''database'')
       \<and> (source r = ''database'' \<longrightarrow>
            region_cache w1 (''tax_regions:'' @ tid @ '':'' @ reg) =
              Some (Parsed \<lparr>taxMultiplier = taxMultiplier r, description = description r\<rparr>,
                    now w + 3600) \<and>
            (\<forall>w2. region_cache w2 = region_cache w1 \<and> now w2 < now w + 3600 \<and>
                  \<not> faults w2 (length (oplog w2)) \<longrightarrow>
                  fst (getRegionRates reg tid w2) =
                    Inr \<lparr>taxMultiplier = taxMultiplier r, description = description r,
                         source = ''database_cached''\<rparr>))
       \<and> (source r \<noteq> ''database'' \<longrightarrow> region_cache w1 = region_cache w)"
proof (intro conjI impI)
  assume h: "\<not> rejected_during w w1 \<and>
          live (region_cache w) (''tax_regions:'' @ tid @ '':'' @ reg) (now w) = None \<and>
          region_exact_rows tid (toUpperCase reg) w \<noteq> []"
  have "Inr r = Inr (region_precedence reg tid w)"
    using getRegionRates_paths(1)[OF assms(1), of reg w] assms(2) h by simp
  with h show "source r = ''database''"
    by (cases "region_exact_rows tid (toUpperCase reg) w") (simp_all add: region_precedence_def)
next
  assume d: "source r = ''database''"
  show c: "region_cache w1 (''tax_regions:'' @ tid @ '':'' @ reg) =
      Some (Parsed \<lparr>taxMultiplier = taxMultiplier r, description = description r\<rparr>, now w + 3600)"
    using getRegionRates_paths(2)[OF assms(1), of reg w] assms(2) d by simp
  show "\<forall>w2. region_cache w2 = region_cache w1 \<and> now w2 < now w + 3600 \<and>
                  \<not> faults w2 (length (oplog w2)) \<longrightarrow>
                  fst (getRegionRates reg tid w2) =
                    Inr \<lparr>taxMultiplier = taxMultiplier r, description = description r,
                         source = ''database_cached''\<rparr>"
  proof (intro allI impI)
    fix w2 :: world
    assume a: "region_cache w2 = region_cache w1 \<and> now w2 < now w + 3600 \<and>
                  \<not> faults w2 (length (oplog w2))"
    then have "live (region_cache w2) (''tax_regions:'' @ tid @ '':'' @ reg) (now w2) =
        Some (Parsed \<lparr>taxMultiplier = taxMultiplier r, description = description r\<rparr>)"
      using c by (simp add: live_def)
    with a show "fst (getRegionRates reg tid w2) =
        Inr \<lparr>taxMultiplier = taxMultiplier r, description = description r,
             source = ''database_cached''\<rparr>"
      using getRegionRates_cached_hit[OF assms(1), of w2 reg] by (simp add: with_source_def)
  qed
next
  assume "source r \<noteq> ''database''"
  then show "region_cache w1 = region_cache w"
    using getRegionRates_paths(2)[OF assms(1), of reg w] assms(2) by simp
qed

text \<open>C8 at a tenant with a row for LAGOS: first resolution at time 0, second at 3599.\<close>

theorem region_cache_population_witness:
  "''t1'' \<noteq> [] \<and> fst lagos_first = Inr lagos_rates \<and>
   region_cache (snd lagos_first) ''tax_regions:t1:Lagos'' =
     Some (Parsed \<lparr>taxMultiplier = 11 / 10, description = ''Regional tax adjustment for Lagos''\<rparr>, 3600) \<and>
   fst (getRegionRates ''Lagos'' ''t1'' ((snd lagos_first)\<lparr>now := 3599\<rparr>)) =
     Inr \<lparr>taxMultiplier = 11 / 10, description = ''Regional tax adjustment for Lagos'',
          source = ''database_cached''\<rparr>"
proof -
  have t: "''t1'' \<noteq> []" by simp
  have f: "fst lagos_first = Inr lagos_rates"
    unfolding lagos_first_def lagos_rates_def by code_simp
  then have e: "getRegionRates ''Lagos'' ''t1'' lagos_world = (Inr lagos_rates, snd lagos_first)"
    by (simp add: lagos_first_def prod_eq_iff)
  have s: "source lagos_rates = ''database''" "taxMultiplier lagos_rates = 11 / 10"
    "description lagos_rates = ''Regional tax adjustment for Lagos''"
    by (simp_all add: lagos_rates_def)
  have n: "now lagos_world = 0" by (simp add: lagos_world_def empty_world_def)
  have q: "\<not> faults ((snd lagos_first)\<lparr>now := 3599\<rparr>) (length (oplog ((snd lagos_first)\<lparr>now := 3599\<rparr>)))"
    unfolding lagos_first_def by code_simp
  note inst = region_cache_population[OF t e]
  from inst s have c: "region_cache (snd lagos_first) (''tax_regions:'' @ ''t1'' @ '':'' @ ''Lagos'') =
     Some (Parsed \<lparr>taxMultiplier = 11 / 10, description = ''Regional tax adjustment for Lagos''\<rparr>,
           now lagos_world + 3600)"
    by simp
  from inst s have "\<forall>w2. region_cache w2 = region_cache (snd lagos_first) \<and> now w2 < now lagos_world + 3600 \<and>
                  \<not> faults w2 (length (oplog w2)) \<longrightarrow>
                  fst (getRegionRates ''Lagos'' ''t1'' w2) =
                    Inr \<lparr>taxMultiplier = 11 / 10, description = ''Regional tax adjustment for Lagos'',
                         source = ''database_cached''\<rparr>"
    by simp
  then have "fst (getRegionRates ''Lagos'' ''t1'' ((snd lagos_first)\<lparr>now := 3599\<rparr>)) =
     Inr \<lparr>taxMultiplier = 11 / 10, description = ''Regional tax adjustment for Lagos'',
          source = ''database_cached''\<rparr>"
    using q n by simp
  with t f c n show ?thesis by simp
qed

section \<open>Properties of the POST handler\<close>

text \<open>
  C7, as stated: a POST for a destination with no registered handler is answered with a
  4xx-class NotFound response, not a 5xx response. The handler has one \<open>catch\<close> for
  everything thrown after the path check, and it answers 500: with a bus that fails with
  NotFound for the unregistered cell \<open>inventory/Missing\<close>, the response is 500.
\<close>

theorem unregistered_destination_counterexample:
  "POST no_handlers missing_cell_path (Inr ()) =
     \<lparr>status = 500, body = ErrorBody ''Cell action failed'' (Some ''NotFound: inventory/Missing'')\<rparr>"
  by (simp add: POST_def no_handlers_def missing_cell_path_def cellBus_call_def thrown_message_def)

text \<open>
  C7, amended: the POST handler never crashes. A malformed path is answered with 400, the
  only 4xx response it produces. For a well-formed path the status is 200 when the bus
  call returns and 500 otherwise: whatever the bus throws, in particular for a destination
  with no registered handler or a failure inside a registered handler, is caught and
  wrapped in the structured body \<open>{error: 'Cell action failed', message}\<close> with status 500.
\<close>

theorem POST_failures_are_500:
  "(\<not> valid_path cellPath \<longrightarrow> status (POST call cellPath request_json) = 400) \<and>
   (valid_path cellPath \<longrightarrow>
      status (POST call cellPath request_json) \<in> {200, 500} \<and>
      (\<forall>cp payload e.
         cellPath = Some cp \<and> request_json = Inr payload \<and>
         call (cp ! 0 @ ''/'' @ cp ! 1) (cp ! 3) payload = Inl e \<longrightarrow>
         POST call cellPath request_json =
           \<lparr>status = 500, body = ErrorBody ''Cell action failed'' (Some (thrown_message e))\<rparr>) \<and>
      (\<forall>cp payload registry.
         cellPath = Some cp \<and> request_json = Inr payload \<and> call = cellBus_call registry \<and>
         registry (cp ! 0 @ ''/'' @ cp ! 1) = None \<longrightarrow>
         status (POST call cellPath request_json) = 500))"
  by (cases cellPath)
     (auto simp: POST_def valid_path_def Let_def cellBus_call_def not_le split: sum.splits)

text \<open>
  C7, amended, at a path that is too short, at an unregistered cell, and at a registered
  handler that throws.
\<close>

theorem POST_failures_are_500_witness:
  "valid_path missing_cell_path \<and> \<not> valid_path (Some [''inventory'', ''TaxAndFee'']) \<and>
   status (POST no_handlers (Some [''inventory'', ''TaxAndFee'']) (Inr ())) = 400 \<and>
   status (POST no_handlers missing_cell_path (Inr ())) = 500 \<and>
   POST (cellBus_call [''inventory/Missing'' \<mapsto> failing_handler]) missing_cell_path (Inr ()) =
     \<lparr>status = 500, body = ErrorBody ''Cell action failed'' (Some ''InvocationError: boom'')\<rparr>"
proof -
  have v: "valid_path missing_cell_path"
    by (simp add: valid_path_def missing_cell_path_def)
  have n: "\<not> valid_path (Some [''inventory'', ''TaxAndFee''])"
    by (simp add: valid_path_def)
  have e: "cellBus_call [''inventory/Missing'' \<mapsto> failing_handler]
             ([''inventory'', ''Missing'', ''actions'', ''calculate''] ! 0 @ ''/'' @
              [''inventory'', ''Missing'', ''actions'', ''calculate''] ! 1)
             ([''inventory'', ''Missing'', ''actions'', ''calculate''] ! 3) () =
           (Inl (ErrorObject ''InvocationError: boom'') :: thrown + unit)"
    by (simp add: cellBus_call_def failing_handler_def thrown_message_def)
  have r: "(Map.empty :: string \<rightharpoonup> (string \<Rightarrow> unit \<Rightarrow> thrown + unit))
             ([''inventory'', ''Missing'', ''actions'', ''calculate''] ! 0 @ ''/'' @
              [''inventory'', ''Missing'', ''actions'', ''calculate''] ! 1) = None"
    by simp
  have 1: "status (POST no_handlers (Some [''inventory'', ''TaxAndFee'']) (Inr ())) = 400"
    using POST_failures_are_500[of "Some [''inventory'', ''TaxAndFee'']" no_handlers "Inr ()"] n
    by blast
  have 2: "status (POST no_handlers missing_cell_path (Inr ())) = 500"
    using POST_failures_are_500[of missing_cell_path no_handlers "Inr ()"] v r
    unfolding missing_cell_path_def no_handlers_def by blast
  have 3: "POST (cellBus_call [''inventory/Missing'' \<mapsto> failing_handler]) missing_cell_path (Inr ()) =
     \<lparr>status = 500, body = ErrorBody ''Cell action failed''
        (Some (thrown_message (ErrorObject ''InvocationError: boom'')))\<rparr>"
    using POST_failures_are_500[of missing_cell_path
        "cellBus_call [''inventory/Missing'' \<mapsto> failing_handler]" "Inr ()"] v e
    unfolding missing_cell_path_def by blast
  from v n 1 2 3 show ?thesis by (simp add: thrown_message_def)
qed

section \<open>Properties of the B2BAccessControl cell\<close>

subsection \<open>The primary rule\<close>

lemma sort_key_head:
  assumes "sort_key f xs = y # ys"
  shows "y \<in> set xs \<and> (\<forall>x \<in> set xs. f y \<le> f x)"
proof -
  have s: "set (sort_key f xs) = set xs" by simp
  have "sorted (map f (sort_key f xs))" by (rule sorted_sort_key)
  then have "\<forall>z \<in> set ys. f y \<le> f z" using assms by simp
  then have "\<forall>x \<in> set (y # ys). f y \<le> f x" by simp
  with s assms show ?thesis by (metis list.set_intros(1))
qed

lemma rule_order_le:
  "(rule_order a \<le> rule_order b) =
     (car_priority (rule_of b) < car_priority (rule_of a) \<or>
      (car_priority (rule_of b) = car_priority (rule_of a) \<and>
       car_created_at (rule_of a) \<le> car_created_at (rule_of b)))"
  by (auto simp: rule_order_def less_eq_prod_def)

lemma sort_key_Nil_iff: "(sort_key f xs = []) = (xs = [])"
  by (metis length_sort length_0_conv)

text \<open>
  C9: when the rule query answers, \<open>checkUserCategoryAccess\<close> decides by one matching
  rule of highest priority and, among those, of earliest creation: \<open>allow\<close> grants all
  four actions with restriction level none; \<open>deny\<close> refuses with level full and no
  action; \<open>request_approval\<close> grants the two view actions with level partial and
  requires a purchase approval. When no rule matches, access is granted with level none
  and all four actions.
\<close>

theorem checkUserCategoryAccess_primary_rule:
  assumes "db_available db"
  shows "if matching_rules p db = []
         then checkUserCategoryAccess p db =
                \<lparr>hasAccess = True, restrictionLevel = level_none, restrictionReason = None,
                 allowedActions = [''view_product'', ''view_price'', ''add_to_cart'', ''purchase''],
                 requiredApprovals = []\<rparr>
         else \<exists>row \<in> set (matching_rules p db).
                (\<forall>q \<in> set (matching_rules p db).
                   car_priority (rule_of q) < car_priority (rule_of row) \<or>
                   (car_priority (rule_of q) = car_priority (rule_of row) \<and>
                    car_created_at (rule_of row) \<le> car_created_at (rule_of q))) \<and>
                (car_access_type (rule_of row) = ''allow'' \<longrightarrow>
                   checkUserCategoryAccess p db =
                     \<lparr>hasAccess = True, restrictionLevel = level_none, restrictionReason = None,
                      allowedActions = [''view_product'', ''view_price'', ''add_to_cart'', ''purchase''],
                      requiredApprovals = []\<rparr>) \<and>
                (car_access_type (rule_of row) = ''deny'' \<longrightarrow>
                   checkUserCategoryAccess p db =
                     \<lparr>hasAccess = False, restrictionLevel = level_full,
                      restrictionReason =
                        Some (''Category access denied by '' @ rule_type row @ '' rule''),
                      allowedActions = [], requiredApprovals = []\<rparr>) \<and>
                (car_access_type (rule_of row) = ''request_approval'' \<longrightarrow>
                   checkUserCategoryAccess p db =
                     \<lparr>hasAccess = True, restrictionLevel = level_partial,
                      restrictionReason = Some ''Purchase requires approval for this category'',
                      allowedActions = [''view_product'', ''view_price''],
                      requiredApprovals = [''purchase_approval'']\<rparr>)"
proof (cases "matching_rules p db = []")
  case True
  with assms show ?thesis by (simp add: checkUserCategoryAccess_def all_actions_def)
next
  case False
  then obtain row rest where s: "sort_key rule_order (matching_rules p db) = row # rest"
    by (cases "sort_key rule_order (matching_rules p db)") (simp_all add: sort_key_Nil_iff)
  from sort_key_head[OF s] have m: "row \<in> set (matching_rules p db)"
    and o: "\<forall>q \<in> set (matching_rules p db). rule_order row \<le> rule_order q"
    by simp_all
  have r: "checkUserCategoryAccess p db = apply_rule row"
    using assms s by (simp add: checkUserCategoryAccess_def)
  have "(\<forall>q \<in> set (matching_rules p db).
           car_priority (rule_of q) < car_priority (rule_of row) \<or>
           (car_priority (rule_of q) = car_priority (rule_of row) \<and>
            car_created_at (rule_of row) \<le> car_created_at (rule_of q)))"
    using o by (simp add: rule_order_le)
  moreover have "car_access_type (rule_of row) = ''allow'' \<longrightarrow>
       checkUserCategoryAccess p db =
         \<lparr>hasAccess = True, restrictionLevel = level_none, restrictionReason = None,
          allowedActions = [''view_product'', ''view_price'', ''add_to_cart'', ''purchase''],
          requiredApprovals = []\<rparr>"
    by (simp add: r apply_rule_def all_actions_def)
  moreover have "car_access_type (rule_of row) = ''deny'' \<longrightarrow>
       checkUserCategoryAccess p db =
         \<lparr>hasAccess = False, restrictionLevel = level_full,
          restrictionReason = Some (''Category access denied by '' @ rule_type row @ '' rule''),
          allowedActions = [], requiredApprovals = []\<rparr>"
    by (simp add: r apply_rule_def)
  moreover have "car_access_type (rule_of row) = ''request_approval'' \<longrightarrow>
       checkUserCategoryAccess p db =
         \<lparr>hasAccess = True, restrictionLevel = level_partial,
          restrictionReason = Some ''Purchase requires approval for this category'',
          allowedActions = [''view_product'', ''view_price''],
          requiredApprovals = [''purchase_approval'']\<rparr>"
    by (simp add: r apply_rule_def)
  ultimately show ?thesis using False m by (simp only: if_False) blast
qed

text \<open>
  C9 at three matching rules: allow with priority 5, deny with priority 8 created at 20,
  request_approval with priority 8 created at 15. The last one decides.
\<close>

theorem checkUserCategoryAccess_primary_rule_witness:
  "db_available example_db \<and>
   matching_rules example_access example_db =
     [((rule_allow, None), None), ((rule_deny, None), None),
      ((rule_approval, Some \<lparr>bg_id = ''g1'', bg_group_name = ''Wholesale''\<rparr>), Some member_u1)] \<and>
   checkUserCategoryAccess example_access example_db =
     \<lparr>hasAccess = True, restrictionLevel = level_partial,
      restrictionReason = Some ''Purchase requires approval for this category'',
      allowedActions = [''view_product'', ''view_price''],
      requiredApprovals = [''purchase_approval'']\<rparr>"
proof -
  have a: "db_available example_db" by (simp add: example_db_def)
  have mr: "matching_rules example_access example_db =
     [((rule_allow, None), None), ((rule_deny, None), None),
      ((rule_approval, Some \<lparr>bg_id = ''g1'', bg_group_name = ''Wholesale''\<rparr>), Some member_u1)]"
    by code_simp
  have "checkUserCategoryAccess example_access example_db =
     \<lparr>hasAccess = True, restrictionLevel = level_partial,
      restrictionReason = Some ''Purchase requires approval for this category'',
      allowedActions = [''view_product'', ''view_price''],
      requiredApprovals = [''purchase_approval'']\<rparr>"
    using checkUserCategoryAccess_primary_rule[OF a, of example_access]
    unfolding mr
    by (auto simp: rule_of_def rule_allow_def rule_deny_def rule_approval_def)
  with a mr show ?thesis by simp
qed

subsection \<open>Revoking a membership\<close>

lemma map_if_none:
  assumes "\<forall>m \<in> set xs. \<not> P m"
  shows "map (\<lambda>m. if P m then f m else m) xs = xs"
  using assms by (induction xs) auto

lemma revoke_memberships_none:
  assumes "\<forall>m \<in> set (b2b_group_memberships db). \<not> membership_matches tid uid gid m"
  shows "revoke_memberships tid uid gid db = (0, db)"
  using assms
  by (simp add: revoke_memberships_def filter_empty_conv map_if_none)

text \<open>
  C10: \<open>removeUserFromB2BGroup\<close> never deletes a membership row. On success some row
  matched, and the table afterwards is the table before with \<open>membership_status\<close> set to
  revoked and \<open>updated_at\<close> set to the current time in the matching rows and nothing
  else changed; every other table is as before. Without success the result carries an
  error and the state is unchanged; when no row matches there is no success.
\<close>

theorem removeUserFromB2BGroup_revokes_only:
  "(rr_success (fst (removeUserFromB2BGroup call params db)) \<longrightarrow>
      (\<exists>tid. resolve_tenant call params = Inr tid \<and>
         (\<exists>m \<in> set (b2b_group_memberships db).
            membership_matches tid (rp_userId params) (rp_groupId params) m) \<and>
         snd (removeUserFromB2BGroup call params db) =
           db\<lparr>b2b_group_memberships :=
                map (\<lambda>m. if membership_matches tid (rp_userId params) (rp_groupId params) m
                          then m\<lparr>gm_membership_status := ''revoked'',
                                 gm_updated_at := current_timestamp db\<rparr>
                          else m)
                  (b2b_group_memberships db)\<rparr>)) \<and>
   (\<not> rr_success (fst (removeUserFromB2BGroup call params db)) \<longrightarrow>
      rr_error (fst (removeUserFromB2BGroup call params db)) \<noteq> None \<and>
      snd (removeUserFromB2BGroup call params db) = db) \<and>
   (\<forall>tid. resolve_tenant call params = Inr tid \<and>
          (\<forall>m \<in> set (b2b_group_memberships db).
             \<not> membership_matches tid (rp_userId params) (rp_groupId params) m) \<longrightarrow>
          \<not> rr_success (fst (removeUserFromB2BGroup call params db))) \<and>
   length (b2b_group_memberships (snd (removeUserFromB2BGroup call params db))) =
     length (b2b_group_memberships db)"
proof (cases "resolve_tenant call params")
  case (Inl e)
  then show ?thesis by (simp add: removeUserFromB2BGroup_def remove_failed_def)
next
  case (Inr tid)
  show ?thesis
  proof (cases "getCurrentUser call")
    case None
    with Inr show ?thesis by (simp add: removeUserFromB2BGroup_def remove_failed_def)
  next
    case (Some user)
    show ?thesis
    proof (cases "hasPermission call (user_id user) tid ''b2b.memberships.delete'' \<and> db_available db")
      case False
      with Inr Some show ?thesis by (auto simp: removeUserFromB2BGroup_def remove_failed_def)
    next
      case True
      show ?thesis
      proof (cases "\<forall>m \<in> set (b2b_group_memberships db).
                      \<not> membership_matches tid (rp_userId params) (rp_groupId params) m")
        case none: True
        with Inr Some True show ?thesis
          by (simp add: removeUserFromB2BGroup_def remove_failed_def revoke_memberships_none)
      next
        case some: False
        with Inr Some True show ?thesis
          by (auto simp: removeUserFromB2BGroup_def revoke_memberships_def filter_empty_conv)
      qed
    qed
  qed
qed

text \<open>
  C10 at a table of two memberships: removing user u1 revokes the first row only;
  removing the unknown user u9 fails and changes nothing.
\<close>

theorem removeUserFromB2BGroup_revokes_only_witness:
  "rr_success (fst (removeUserFromB2BGroup admin_bus remove_u1 example_db)) \<and>
   snd (removeUserFromB2BGroup admin_bus remove_u1 example_db) =
     example_db\<lparr>b2b_group_memberships :=
       [member_u1\<lparr>gm_membership_status := ''revoked'', gm_updated_at := 100\<rparr>, member_u2]\<rparr> \<and>
   resolve_tenant admin_bus remove_u9 = Inr ''t1'' \<and>
   b2b_group_memberships example_db = [member_u1, member_u2] \<and>
   \<not> membership_matches ''t1'' (rp_userId remove_u9) (rp_groupId remove_u9) member_u1 \<and>
   \<not> membership_matches ''t1'' (rp_userId remove_u9) (rp_groupId remove_u9) member_u2 \<and>
   \<not> rr_success (fst (removeUserFromB2BGroup admin_bus remove_u9 example_db)) \<and>
   snd (removeUserFromB2BGroup admin_bus remove_u9 example_db) = example_db"
proof -
  have s: "rr_success (fst (removeUserFromB2BGroup admin_bus remove_u1 example_db))"
    by code_simp
  have t1: "resolve_tenant admin_bus remove_u1 = Inr ''t1''"
    by (simp add: resolve_tenant_def remove_u1_def)
  have t9: "resolve_tenant admin_bus remove_u9 = Inr ''t1''"
    by (simp add: resolve_tenant_def remove_u9_def getSecureTenantId_def admin_bus_def)
  have n: "\<forall>m \<in> set (b2b_group_memberships example_db).
      \<not> membership_matches ''t1'' (rp_userId remove_u9) (rp_groupId remove_u9) m"
    by (simp add: example_db_def membership_matches_def remove_u9_def member_u1_def member_u2_def)
  have m: "map (\<lambda>m. if membership_matches ''t1'' (rp_userId remove_u1) (rp_groupId remove_u1) m
                          then m\<lparr>gm_membership_status := ''revoked'',
                                 gm_updated_at := current_timestamp example_db\<rparr>
                          else m)
                  (b2b_group_memberships example_db) =
           [member_u1\<lparr>gm_membership_status := ''revoked'', gm_updated_at := 100\<rparr>, member_u2]"
    by (simp add: example_db_def membership_matches_def remove_u1_def member_u1_def member_u2_def)
  have 1: "snd (removeUserFromB2BGroup admin_bus remove_u1 example_db) =
     example_db\<lparr>b2b_group_memberships :=
       [member_u1\<lparr>gm_membership_status := ''revoked'', gm_updated_at := 100\<rparr>, member_u2]\<rparr>"
    using removeUserFromB2BGroup_revokes_only[of admin_bus remove_u1 example_db] s t1 m
    by simp
  have 2: "\<not> rr_success (fst (removeUserFromB2BGroup admin_bus remove_u9 example_db))"
    using removeUserFromB2BGroup_revokes_only[of admin_bus remove_u9 example_db] t9 n
    by blast
  then have 3: "snd (removeUserFromB2BGroup admin_bus remove_u9 example_db) = example_db"
    using removeUserFromB2BGroup_revokes_only[of admin_bus remove_u9 example_db]
    by blast
  have 4: "b2b_group_memberships example_db = [member_u1, member_u2]"
    by (simp add: example_db_def)
  from n 4 have 5:
    "\<not> membership_matches ''t1'' (rp_userId remove_u9) (rp_groupId remove_u9) member_u1"
    "\<not> membership_matches ''t1'' (rp_userId remove_u9) (rp_groupId remove_u9) member_u2"
    by simp_all
  from s 1 t9 2 3 4 5 show ?thesis by blast
qed

end
